theory Spec2Isabelle
  imports Complex_Main "HOL-Library.Char_ord" "HOL-Library.List_Lexorder"
begin

section \<open>Python values, exceptions and tables\<close>

text \<open>
  The downloader is Python on top of pandas. Exceptions are values: \<open>ValueError\<close> stands
  for the class and its subclasses (pandas' EmptyDataError and ParserError, json's
  JSONDecodeError), \<open>OtherException\<close> for every other subclass of Exception (URLError,
  KeyError, TypeError, ...). Both carry the text of \<open>str(e)\<close>.
\<close>

datatype exn = ValueError string | OtherException string

text \<open>A Python float: a finite number, an infinity or NaN.\<close>

datatype pyfloat = Fin real | PosInf | NegInf | NaN

text \<open>
  The Python objects a pandas column read from a CSV file yields when it is iterated:
  None, bools, ints, floats (an empty cell is the float NaN) and strings.
\<close>

datatype pyval = VNone | VBool bool | VInt int | VFloat pyfloat | VStr string

text \<open>
  A DataFrame as \<open>read_csv\<close> returns it: the header and the rows, each row one value per
  column. The index is the default 0..n-1, which is what \<open>reset_index(drop=True)\<close>
  restores, so it is not stored.
\<close>

record dataframe =
  columns :: "string list"
  rows :: "pyval list list"

definition df_empty :: "dataframe \<Rightarrow> bool" where
  \<comment> \<open>\<open>df.empty\<close>: one of the two axes has length 0\<close>
  "df_empty df = (rows df = [] \<or> columns df = [])"

definition endswith :: "string \<Rightarrow> string \<Rightarrow> bool" where
  "endswith s suf = (length suf \<le> length s \<and> drop (length s - length suf) s = suf)"

section \<open>The unit record (src/unit.py)\<close>

record Unit =
  unit_no :: int
  block :: int
  ip_address :: string
  port :: string
  serial :: string
  channels :: "(string \<times> bool) list"
  data :: "dataframe option"
  warnings :: "string list"
  errors :: "string list"
  datatype' :: string

text \<open>One device configuration file, as \<open>json.load\<close> returns it.\<close>

record unit_json =
  j_unit_no :: int
  j_block :: int
  j_ip_address :: string
  j_port :: string
  j_serial :: string
  j_channels :: "(string \<times> bool) list"

text \<open>
  \<open>Unit.__init__\<close> as the loaders call it: no dataset, no findings, and the class
  attribute \<open>datatype = ""\<close>.
\<close>

definition new_Unit :: "unit_json \<Rightarrow> Unit" where
  "new_Unit j = \<lparr> unit_no = j_unit_no j, block = j_block j, ip_address = j_ip_address j,
     port = j_port j, serial = j_serial j, channels = j_channels j, data = None,
     warnings = [], errors = [], datatype' = [] \<rparr>"

section \<open>Loading the unit configuration store\<close>

text \<open>
  What a directory entry holds for the loader: a file whose content \<open>json.load\<close> and the
  six field reads accept, or one on which they raise.
\<close>

datatype config_file = Config unit_json | Malformed string

text \<open>
  \<open>BulkDownloadGUI.load_units\<close> (src/main.py) and \<open>QualityChecker._load_units\<close>
  (src/qualitychecker.py): the loop over \<open>os.listdir\<close>, in listing order, appending one
  Unit per file whose name ends in \<open>.json\<close>; a file that does not parse raises out of
  the loop.
\<close>

fun load_units_loop :: "(string \<times> config_file) list \<Rightarrow> Unit list \<Rightarrow> exn + Unit list" where
  "load_units_loop [] units = Inr units"
| "load_units_loop ((fname, c) # rest) units =
     (if endswith fname ''.json''
      then (case c of
              Malformed msg \<Rightarrow> Inl (ValueError msg)
            | Config j \<Rightarrow> load_units_loop rest (units @ [new_Unit j]))
      else load_units_loop rest units)"

text \<open>
  \<open>sorted(units, key=lambda x: x.unit_no)\<close>; \<open>sorted(units)\<close> of the second loader
  compares with \<open>Unit.__lt__\<close>, which is \<open><\<close> on \<open>unit_no\<close>. Python's sort is
  stable, as \<open>sort_key\<close> is.
\<close>

definition load_units :: "(string \<times> config_file) list \<Rightarrow> exn + Unit list" where
  "load_units config_dir =
     (case load_units_loop config_dir [] of
        Inl e \<Rightarrow> Inl e
      | Inr units \<Rightarrow> Inr (sort_key unit_no units))"

text \<open>The configurations of the \<open>.json\<close> files of a directory, in listing order.\<close>

fun json_configs :: "(string \<times> config_file) list \<Rightarrow> unit_json list" where
  "json_configs [] = []"
| "json_configs ((fname, Config j) # rest) =
     (if endswith fname ''.json'' then j # json_configs rest else json_configs rest)"
| "json_configs ((fname, Malformed msg) # rest) = json_configs rest"

fun well_formed_dir :: "(string \<times> config_file) list \<Rightarrow> bool" where
  "well_formed_dir [] = True"
| "well_formed_dir ((fname, Config j) # rest) = well_formed_dir rest"
| "well_formed_dir ((fname, Malformed msg) # rest) =
     (\<not> endswith fname ''.json'' \<and> well_formed_dir rest)"

section \<open>Strings\<close>

text \<open>\<open>str(n)\<close> for a Python int: decimal digits, with a minus sign when negative.\<close>

definition digit_char :: "nat \<Rightarrow> char" where
  "digit_char d = ''0123456789'' ! d"

fun str_nat :: "nat \<Rightarrow> string" where
  "str_nat n = (if n < 10 then [digit_char n] else str_nat (n div 10) @ [digit_char (n mod 10)])"

declare str_nat.simps [simp del]

definition str_int :: "int \<Rightarrow> string" where
  "str_int i = (if i < 0 then CHR ''-'' # str_nat (nat (- i)) else str_nat (nat i))"

text \<open>
  \<open>s.split(sep)\<close> for a non-empty separator: the pieces between the leftmost,
  non-overlapping occurrences of \<open>sep\<close>. \<open>cur\<close> holds the current piece, reversed.
\<close>

fun split_acc :: "string \<Rightarrow> string \<Rightarrow> string \<Rightarrow> string list" where
  "split_acc sep cur [] = [rev cur]"
| "split_acc sep cur (c # cs) =
     (if sep \<noteq> [] \<and> take (length sep) (c # cs) = sep
      then rev cur # split_acc sep [] (drop (length sep - 1) cs)
      else split_acc sep (c # cur) cs)"

definition split :: "string \<Rightarrow> string \<Rightarrow> string list" where
  "split s sep = split_acc sep [] s"

text \<open>\<open>url.split('/')[-1]\<close>: what follows the last slash.\<close>

definition last_segment :: "string \<Rightarrow> string" where
  "last_segment url = last (split url ''/'')"

text \<open>\<open>needle in hay\<close> on strings: \<open>needle\<close> occurs in \<open>hay\<close>.\<close>

fun str_in :: "string \<Rightarrow> string \<Rightarrow> bool" where
  "str_in needle [] = (needle = [])"
| "str_in needle (c # cs) = (take (length needle) (c # cs) = needle \<or> str_in needle cs)"

text \<open>\<open>s.replace(old, '')\<close>: the pieces of \<open>s.split(old)\<close>, joined.\<close>

definition remove_all :: "string \<Rightarrow> string \<Rightarrow> string" where
  "remove_all s old = concat (split s old)"

text \<open>\<open>s.lower()\<close> on ASCII letters.\<close>

definition lower_char :: "char \<Rightarrow> char" where
  "lower_char c =
     (case map_of (zip ''ABCDEFGHIJKLMNOPQRSTUVWXYZ'' ''abcdefghijklmnopqrstuvwxyz'') c of
        Some d \<Rightarrow> d
      | None \<Rightarrow> c)"

definition lower :: "string \<Rightarrow> string" where
  "lower s = map lower_char s"

section \<open>The log, the alerts and the cloud storage\<close>

text \<open>
  Modelled from the spec: the modules \<open>log\<close> and \<open>alert\<close> are not among the sources.
  \<open>Log.write\<close> appends a line to the process-wide log, \<open>Log.record_failed_downloads\<close>
  appends a record (device, date, URL) to the failed-downloads record, \<open>send_email\<close> sends
  one message (subject, body); none of them raises. The world also keeps the queries sent
  to the cloud storage and the CSV files written (path and content, in the order of the
  writes). Console output (\<open>print\<close>) is not modelled.
\<close>

record world =
  log_lines :: "string list"
  failed_downloads :: "(int \<times> string \<times> string) list"
  sent_emails :: "(string \<times> string) list"
  drive_queries :: "string list"
  csv_files :: "(string \<times> dataframe) list"

definition Log_write :: "string \<Rightarrow> world \<Rightarrow> world" where
  "Log_write msg w = w\<lparr>log_lines := log_lines w @ [msg]\<rparr>"

definition Log_record_failed_downloads :: "int \<Rightarrow> string \<Rightarrow> string \<Rightarrow> world \<Rightarrow> world" where
  "Log_record_failed_downloads n date url w =
     w\<lparr>failed_downloads := failed_downloads w @ [(n, date, url)]\<rparr>"

definition send_email :: "string \<Rightarrow> string \<Rightarrow> world \<Rightarrow> world" where
  "send_email subject body w = w\<lparr>sent_emails := sent_emails w @ [(subject, body)]\<rparr>"

section \<open>Row-order normalization (\<open>Unit._fix_order\<close>)\<close>

text \<open>
  A pandas timestamp: nanoseconds since the epoch, or NaT (what a missing value converts
  to). Every comparison with NaT is false.
\<close>

datatype timestamp = NaT | At int

fun ts_gt :: "timestamp \<Rightarrow> timestamp \<Rightarrow> bool" where
  "ts_gt (At a) (At b) = (a > b)"
| "ts_gt _ _ = False"

text \<open>A cell of a row; pandas pads a short row with NaN.\<close>

definition cell_at :: "pyval list \<Rightarrow> nat \<Rightarrow> pyval" where
  "cell_at r i = (if i < length r then r ! i else VFloat NaN)"

definition column_at :: "dataframe \<Rightarrow> nat \<Rightarrow> pyval list" where
  \<comment> \<open>\<open>df.iloc[:, i]\<close>\<close>
  "column_at df i = map (\<lambda>r. cell_at r i) (rows df)"

definition reversed :: "dataframe \<Rightarrow> dataframe" where
  \<comment> \<open>\<open>df.iloc[::-1].reset_index(drop=True)\<close>\<close>
  "reversed df = df\<lparr>rows := rev (rows df)\<rparr>"

text \<open>
  \<open>_fix_order(self, df)\<close>. \<open>to_datetime\<close> is \<open>pd.to_datetime\<close> on a whole column, a
  parameter: the timestamps of the column, or the exception it raises. The result is the
  table returned together with the unit and the world, which change when the conversion
  raises a ValueError; any other exception of the conversion leaves the function.
\<close>

definition fix_order ::
  "(pyval list \<Rightarrow> exn + timestamp list) \<Rightarrow> Unit \<Rightarrow> world \<Rightarrow> dataframe option
     \<Rightarrow> exn + (dataframe option \<times> Unit \<times> world)" where
  "fix_order to_datetime u w dfo =
     (case dfo of
        None \<Rightarrow> Inr (None, u, w)
      | Some df \<Rightarrow>
          if df_empty df \<or> length (rows df) < 2 then Inr (Some df, u, w)
          else (case to_datetime (column_at df 0) of
                  Inr (t0 # t1 # ts) \<Rightarrow>
                    if ts_gt t0 t1 then Inr (Some (reversed df), u, w)
                    else Inr (Some df, u, w)
                | Inr _ \<Rightarrow> Inl (OtherException ''IndexError'')
                | Inl (ValueError msg) \<Rightarrow>
                    (let line = ''Unit '' @ str_int (unit_no u)
                                 @ '': Error parsing timestamps: '' @ msg
                     in Inr (Some df, u\<lparr>errors := errors u @ [line]\<rparr>, Log_write line w))
                | Inl (OtherException msg) \<Rightarrow> Inl (OtherException msg)))"

section \<open>Downloading (\<open>Unit._download\<close>)\<close>

text \<open>The table \<open>google_paths\<close> of src/unit.py, a dict from device number to folder.\<close>

definition google_paths :: "(int \<times> string) list" where
  "google_paths =
    [(77, ''1Z1ETfHlgitFOBx8SWqYiotkezFwL2ahb''),
     (78, ''1oOKr0Kt2Jg2j_tqzv6sdRF4bEuNofxy2''),
     (79, ''1NUruYAn2kafZTrUOFeMndmKHCyXnBVFM''),
     (80, ''1Idx4pE-vBeRzFQXoBpiwRgfHbh-CZ5Go''),
     (81, ''1Y17UL5XGQPlFf361V-9FLhP-JhAuFzaI''),
     (82, ''1ud6EOvBFkXGPR8McKDEJR6Dx3y_NssiF''),
     (83, ''1O08BMUVd4CnNsYYoH5l1mRYGW97AXsA5''),
     (84, ''1UHTnt1gOF28LoF7QnS-JcQ69q20pdeDc''),
     (85, ''1j2tTzGza7hDmwGukHo1HQFTYlMGg1qmo''),
     (86, ''1pmiaLqn_M3y3Ebn3tT9LnHBvRbgHOsA6''),
     (87, ''1JPCc3CIt1R5pW61DHtC24wVslnWC8QhN''),
     (2804, ''1X8M-Ec0y-vl3CrJ9zZxuMUMYAVlMF7fJ''),
     (2806, ''1Fh7r38--RT9_J1-e4XJnzLdQkXjD0zO5''),
     (2808, ''127cFRH_0pa1eZN67dYp4H63dM4hwX_43''),
     (2810, ''1euo9FBA2qem2oaa_ze0bxudcA9ZSOSVc''),
     (2812, ''1KH_x8Sb7ix-KdBUJYvsGZDOB5Ec3oaei''),
     (2814, ''125PAJ1RCLN4IDGVUeyh-lmvXQEhY6vMH''),
     (2816, ''1uCERJeoSE2Oexa59g3Nv7SZNrzQZfHp0''),
     (2818, ''17dVMIaaF0kzZofbUA4kJAIeYbVhrlNHt'')]"

text \<open>
  What the outside answers during one download: \<open>pd.read_csv\<close> on a URL, the conversion
  of a column to timestamps, and the cloud storage: whether building the client raises
  (reading the service-account file, \<open>build\<close>), the file ids the listing returns for a
  query, and the table read from the bytes of a file id (an exception of the download or
  of \<open>read_csv\<close> on them is its \<open>Inl\<close>).
\<close>

record env =
  read_csv :: "string \<Rightarrow> exn + dataframe"
  to_datetime :: "pyval list \<Rightarrow> exn + timestamp list"
  drive_service :: "exn option"
  drive_list :: "string \<Rightarrow> exn + string list"
  drive_read :: "string \<Rightarrow> exn + dataframe"

definition newline :: string where
  "newline = [CHR 0x0A]"

fun exn_str :: "exn \<Rightarrow> string" where
  \<comment> \<open>\<open>str(e)\<close>\<close>
  "exn_str (ValueError msg) = msg"
| "exn_str (OtherException msg) = msg"

text \<open>The body of the \<open>try\<close>: nothing is changed before an exception leaves it.\<close>

definition download_try :: "env \<Rightarrow> Unit \<Rightarrow> world \<Rightarrow> string \<Rightarrow> exn + (Unit \<times> world)" where
  "download_try ev u w url =
     (case read_csv ev url of
        Inl e \<Rightarrow> Inl e
      | Inr response \<Rightarrow>
          if df_empty response then Inl (ValueError ''Downloaded data is empty'')
          else (case fix_order (to_datetime ev) u w (Some response) of
                  Inl e \<Rightarrow> Inl e
                | Inr (d, u', w') \<Rightarrow> Inr (u'\<lparr>data := d\<rparr>, w')))"

definition drive_query :: "string \<Rightarrow> string \<Rightarrow> string" where
  "drive_query drive_folder_id filename =
     [CHR 0x27] @ drive_folder_id @ [CHR 0x27] @ '' in parents and name = '' @ [CHR 0x27]
       @ filename @ [CHR 0x27] @ '' and trashed = false''"

definition backup_failed :: "exn \<Rightarrow> world \<Rightarrow> world" where
  \<comment> \<open>the handler \<open>except Exception as backup_error\<close>\<close>
  "backup_failed e w = Log_write (''Failed to download from Google Drive: '' @ exn_str e @ newline) w"

text \<open>
  The fallback, lines 133 to 192: the inner \<open>try\<close> with its handler. The query is
  recorded in the world when the listing is executed.
\<close>

definition drive_fallback ::
  "env \<Rightarrow> Unit \<Rightarrow> world \<Rightarrow> string \<Rightarrow> string \<Rightarrow> Unit \<times> world" where
  "drive_fallback ev u w date drive_folder_id =
     (let filename = serial u @ ''_'' @ date @ ''.csv'';
          w1 = Log_write (''Attempting to download '' @ filename @ '' from Google Drive for Unit ''
                           @ str_int (unit_no u)) w
      in case drive_service ev of
           Some e \<Rightarrow> (u, backup_failed e w1)
         | None \<Rightarrow>
            (let query = drive_query drive_folder_id filename;
                 w2 = w1\<lparr>drive_queries := drive_queries w1 @ [query]\<rparr>
             in case drive_list ev query of
                  Inl e \<Rightarrow> (u, backup_failed e w2)
                | Inr [] \<Rightarrow>
                    (u, Log_write (''File '' @ filename @ '' not found in Google Drive folder''
                                     @ newline) w2)
                | Inr (file_id # _) \<Rightarrow>
                    (case drive_read ev file_id of
                       Inl e \<Rightarrow> (u, backup_failed e w2)
                     | Inr backup_data \<Rightarrow>
                         if \<not> df_empty backup_data
                         then (case fix_order (to_datetime ev) u w2 (Some backup_data) of
                                 Inl e \<Rightarrow> (u, backup_failed e w2)
                               | Inr (d, u', w') \<Rightarrow>
                                   (u'\<lparr>data := d\<rparr>,
                                    Log_write (''Successfully loaded '' @ filename @ '' for Unit ''
                                       @ str_int (unit_no u) @ '' from Google Drive'' @ newline) w'))
                         else (u, Log_write (''Downloaded file from Google Drive is empty''
                                               @ newline) w2))))"

text \<open>
  \<open>_download(self, url)\<close>. Each exception of the \<open>try\<close> meets one of the two handlers,
  and the second handler catches what its own \<open>try\<close> raises, so the function returns the
  unit and the world in every case.
\<close>

definition download :: "env \<Rightarrow> Unit \<Rightarrow> world \<Rightarrow> string \<Rightarrow> Unit \<times> world" where
  "download ev u w url =
     (let w1 = Log_write (''Downloading Unit '' @ str_int (unit_no u) @ '': '' @ ip_address u
                           @ '':'' @ port u) w;
          date = last_segment url
      in case download_try ev u w1 url of
           Inr (u', w') \<Rightarrow> (u', w')
         | Inl (ValueError msg) \<Rightarrow>
             (let line = ''Unit '' @ str_int (unit_no u) @ '': Empty data from '' @ url
              in (u\<lparr>data := None, errors := errors u @ [line]\<rparr>,
                  Log_record_failed_downloads (unit_no u) date url
                    (Log_write (line @ newline @ newline) w1)))
         | Inl (OtherException msg) \<Rightarrow>
             (case map_of google_paths (unit_no u) of
                Some drive_folder_id \<Rightarrow> drive_fallback ev u w1 date drive_folder_id
              | None \<Rightarrow> (u, w1)))"

text \<open>The export URLs of \<open>download_minute_data\<close> and \<open>download_hour_data\<close>.\<close>

definition daily_url :: "Unit \<Rightarrow> string \<Rightarrow> string" where
  "daily_url u date =
     ''http://'' @ ip_address u @ '':'' @ port u @ ''/index.php/pages/export/exportDaily/''
       @ serial u @ ''/'' @ date"

definition monthly_url :: "Unit \<Rightarrow> string \<Rightarrow> string" where
  "monthly_url u date =
     ''http://'' @ ip_address u @ '':'' @ port u @ ''/index.php/pages/export/exportMonthly/''
       @ serial u @ ''/'' @ date"

definition download_minute_data :: "env \<Rightarrow> Unit \<Rightarrow> world \<Rightarrow> string \<Rightarrow> Unit \<times> world" where
  "download_minute_data ev u w date =
     download ev (u\<lparr>datatype' := ''Minute''\<rparr>) w (daily_url u date)"

definition download_hour_data :: "env \<Rightarrow> Unit \<Rightarrow> world \<Rightarrow> string \<Rightarrow> Unit \<times> world" where
  "download_hour_data ev u w date =
     download ev (u\<lparr>datatype' := ''Hour''\<rparr>) w (monthly_url u date)"

text \<open>
  The fallback table as the spec lists it (section 6, cloud-storage fallback), to be
  compared with \<open>google_paths\<close>.
\<close>

definition spec_folder_table :: "(int \<times> string) list" where
  "spec_folder_table =
    [(77, ''1Z1ETfHlgitFOBx8SWqYiotkezFwL2ahb''), (78, ''1oOKr0Kt2Jg2j_tqzv6sdRF4bEuNofxy2''),
     (79, ''1NUruYAn2kafZTrUOFeMndmKHCyXnBVFM''), (80, ''1Idx4pE-vBeRzFQXoBpiwRgfHbh-CZ5Go''),
     (81, ''1Y17UL5XGQPlFf361V-9FLhP-JhAuFzaI''), (82, ''1ud6EOvBFkXGPR8McKDEJR6Dx3y_NssiF''),
     (83, ''1O08BMUVd4CnNsYYoH5l1mRYGW97AXsA5''), (84, ''1UHTnt1gOF28LoF7QnS-JcQ69q20pdeDc''),
     (85, ''1j2tTzGza7hDmwGukHo1HQFTYlMGg1qmo''), (86, ''1pmiaLqn_M3y3Ebn3tT9LnHBvRbgHOsA6''),
     (87, ''1JPCc3CIt1R5pW61DHtC24wVslnWC8QhN''), (2804, ''1X8M-Ec0y-vl3CrJ9zZxuMUMYAVlMF7fJ''),
     (2806, ''1Fh7r38--RT9_J1-e4XJnzLdQkXjD0zO5''), (2808, ''127cFRH_0pa1eZN67dYp4H63dM4hwX_43''),
     (2810, ''1euo9FBA2qem2oaa_ze0bxudcA9ZSOSVc''), (2812, ''1KH_x8Sb7ix-KdBUJYvsGZDOB5Ec3oaei''),
     (2814, ''125PAJ1RCLN4IDGVUeyh-lmvXQEhY6vMH''), (2816, ''1uCERJeoSE2Oexa59g3Nv7SZNrzQZfHp0''),
     (2818, ''17dVMIaaF0kzZofbUA4kJAIeYbVhrlNHt'')]"

section \<open>The bulk-download loop (\<open>BulkDownloadGUI.start_download\<close>)\<close>

text \<open>
  One pass of the inner loop body, lines 657 to 675 of src/main.py, for one unit and one
  date string: download, then write the unit's dataset under the date's file name when
  \<open>unit.data is not None and not unit.data.empty\<close>.
\<close>

definition unit_csv_path :: "string \<Rightarrow> int \<Rightarrow> string \<Rightarrow> string" where
  "unit_csv_path output_dir n date_str =
     output_dir @ ''/UNIT '' @ str_int n @ ''/Unit_'' @ str_int n @ ''_'' @ date_str @ ''.csv''"

definition download_and_save ::
  "env \<Rightarrow> string \<Rightarrow> string \<Rightarrow> string \<Rightarrow> Unit \<Rightarrow> world \<Rightarrow> Unit \<times> world" where
  "download_and_save ev data_type output_dir date_str u w =
     (case (if data_type = ''Minute'' then download_minute_data ev u w date_str
            else download_hour_data ev u w date_str) of
        (u', w') \<Rightarrow>
          (case data u' of
             Some df \<Rightarrow>
               if \<not> df_empty df
               then (u', w'\<lparr>csv_files := csv_files w'
                              @ [(unit_csv_path output_dir (unit_no u') date_str, df)]\<rparr>)
               else (u', w')
           | None \<Rightarrow> (u', w')))"

text \<open>
  The two loops, dates outside and the selected units inside. The Unit objects are those
  of the selection, kept from one date to the next. The run is not cancelled.
\<close>

fun download_units ::
  "env \<Rightarrow> string \<Rightarrow> string \<Rightarrow> string \<Rightarrow> Unit list \<Rightarrow> world \<Rightarrow> Unit list \<times> world" where
  "download_units ev data_type output_dir date_str [] w = ([], w)"
| "download_units ev data_type output_dir date_str (u # us) w =
     (case download_and_save ev data_type output_dir date_str u w of
        (u', w') \<Rightarrow>
          (case download_units ev data_type output_dir date_str us w' of
             (us', w'') \<Rightarrow> (u' # us', w'')))"

fun download_dates ::
  "env \<Rightarrow> string \<Rightarrow> string \<Rightarrow> string list \<Rightarrow> Unit list \<Rightarrow> world \<Rightarrow> Unit list \<times> world" where
  "download_dates ev data_type output_dir [] us w = (us, w)"
| "download_dates ev data_type output_dir (date_str # ds) us w =
     (case download_units ev data_type output_dir date_str us w of
        (us', w') \<Rightarrow> download_dates ev data_type output_dir ds us' w')"

section \<open>Device storage (\<open>Unit.check_space\<close>)\<close>

text \<open>Python's \<open><=\<close> and \<open><\<close> on floats: every comparison with NaN is false.\<close>

fun pyfloat_le :: "pyfloat \<Rightarrow> pyfloat \<Rightarrow> bool" where
  "pyfloat_le NaN _ = False"
| "pyfloat_le _ NaN = False"
| "pyfloat_le NegInf _ = True"
| "pyfloat_le _ PosInf = True"
| "pyfloat_le (Fin a) (Fin b) = (a \<le> b)"
| "pyfloat_le _ _ = False"

definition pyfloat_lt :: "pyfloat \<Rightarrow> pyfloat \<Rightarrow> bool" where
  "pyfloat_lt a b = (pyfloat_le a b \<and> a \<noteq> b)"

text \<open>
  \<open>is_float(value)\<close> of src/unit.py on a string, with Python's \<open>float\<close> on strings as
  the parameter \<open>pyf\<close> (\<open>None\<close> where it raises ValueError).
\<close>

definition is_float :: "(string \<Rightarrow> pyfloat option) \<Rightarrow> string \<Rightarrow> bool" where
  "is_float pyf s = (pyf s \<noteq> None)"

text \<open>
  \<open>check_space(self)\<close> from the scraped text on: \<open>scraped\<close> is what fetching the status
  page and reading the nested span give, the text before the first \<open><\<close> or the exception
  raised on the way, which nothing catches.
\<close>

definition check_space ::
  "(string \<Rightarrow> pyfloat option) \<Rightarrow> Unit \<Rightarrow> world \<Rightarrow> exn + string \<Rightarrow> exn + world" where
  "check_space pyf u w scraped =
     (case scraped of
        Inl e \<Rightarrow> Inl e
      | Inr space \<Rightarrow>
          if is_float pyf space \<and> pyfloat_lt (Fin 1) (the (pyf space))
             \<and> pyfloat_lt (the (pyf space)) (Fin 40)
          then Inr (Log_write (''Unit '' @ str_int (unit_no u) @ '': '' @ space
                                 @ '' GB left on the SD card'') w)
          else Inr (send_email ''Maple West SD Card Storage Almost Full''
                      (''Unit '' @ str_int (unit_no u)
                         @ '': Less than 1GB of space available on the SD card'' @ newline @ newline
                         @ space @ '' GB left'' @ newline @ newline
                         @ ''http://'' @ ip_address u @ '':'' @ port u)
                      (Log_write (''Unit '' @ str_int (unit_no u)
                                    @ '': Less than 1GB of space available on the SD card: ''
                                    @ space @ '' GB'') w)))"

section \<open>Quality check of one unit (\<open>Unit.check_quality\<close>)\<close>

text \<open>
  Modelled from the spec: the modules \<open>rules\<close> and \<open>channels\<close> are not among the
  sources. \<open>check_missing_rows\<close> returns error strings, warning strings and the bad row
  indices; \<open>check_total_energy\<close> and a channel's \<open>check_channel\<close> return error strings
  and warning strings. \<open>channel_check name\<close> is \<open>channels[name].check_channel\<close>, \<open>None\<close>
  for a name the registry does not have (a KeyError). \<open>last_month\<close> is the month before
  today as \<open>%Y-%m\<close>.
\<close>

record checks =
  check_missing_rows :: "dataframe \<Rightarrow> int \<Rightarrow> string list \<times> string list \<times> nat list"
  check_total_energy :: "dataframe \<Rightarrow> int \<Rightarrow> string list \<times> string list"
  channel_check :: "string \<Rightarrow> (dataframe \<Rightarrow> int \<Rightarrow> nat list \<Rightarrow> string list \<times> string list) option"
  last_month :: string

text \<open>The loop over \<open>self.channels\<close>, in the order of the dict, on the monitored channels.\<close>

fun check_channels ::
  "checks \<Rightarrow> dataframe \<Rightarrow> nat list \<Rightarrow> (string \<times> bool) list \<Rightarrow> Unit \<Rightarrow> exn + Unit" where
  "check_channels ck df bad_indices [] u = Inr u"
| "check_channels ck df bad_indices ((channel, monitored) # rest) u =
     (if monitored
      then (case channel_check ck channel of
              None \<Rightarrow> Inl (OtherException ''KeyError'')
            | Some check_channel \<Rightarrow>
                (case check_channel df (unit_no u) bad_indices of
                   (channel_errors, channel_warnings) \<Rightarrow>
                     check_channels ck df bad_indices rest
                       (u\<lparr>errors := errors u @ channel_errors,
                          warnings := warnings u @ channel_warnings\<rparr>)))
      else check_channels ck df bad_indices rest u)"

definition data_csv_path :: "string \<Rightarrow> int \<Rightarrow> string \<Rightarrow> string" where
  "data_csv_path dt n label =
     dt @ ''_Data/UNIT '' @ str_int n @ ''/Unit_'' @ str_int n @ ''_'' @ label @ ''.csv''"

text \<open>
  \<open>check_quality(self, save_files, date)\<close>. The value returned is \<open>Some (errors, warnings)\<close>
  for \<open>return self.errors, self.warnings\<close> and \<open>None\<close> for the bare \<open>return\<close>, which
  gives Python's None.
\<close>

definition check_quality ::
  "checks \<Rightarrow> Unit \<Rightarrow> world \<Rightarrow> bool \<Rightarrow> string
     \<Rightarrow> exn + ((string list \<times> string list) option \<times> Unit \<times> world)" where
  "check_quality ck u w save_files date =
     (case data u of
        None \<Rightarrow> Inr (Some (errors u, warnings u), u, w)
      | Some df \<Rightarrow>
          (let w1 = Log_write (''Checking Unit '' @ str_int (unit_no u) @ '': '' @ ip_address u
                                 @ '':'' @ port u) w
           in case check_missing_rows ck df (unit_no u) of
                (missing_row_errors, missing_row_warnings, bad_indices) \<Rightarrow>
                  (let u1 = u\<lparr>errors := errors u @ missing_row_errors,
                               warnings := warnings u @ missing_row_warnings\<rparr>
                   in if datatype' u1 = ''Hour''
                      then (if save_files
                            then Inr (None, u1,
                                      w1\<lparr>csv_files := csv_files w1
                                            @ [(data_csv_path (datatype' u1) (unit_no u1)
                                                  (last_month ck), df)]\<rparr>)
                            else Inr (None, u1, w1))
                      else (case check_total_energy ck df (unit_no u1) of
                              (energy_errors, energy_warnings) \<Rightarrow>
                                (let u2 = u1\<lparr>errors := errors u1 @ energy_errors,
                                             warnings := warnings u1 @ energy_warnings\<rparr>
                                 in case check_channels ck df bad_indices (channels u2) u2 of
                                      Inl e \<Rightarrow> Inl e
                                    | Inr u3 \<Rightarrow>
                                        (let w2 = (if errors u3 = [] \<and> warnings u3 = []
                                                   then Log_write (''Unit '' @ str_int (unit_no u3)
                                                          @ '': Passed all systems checks'') w1
                                                   else w1);
                                             w3 = (if save_files
                                                   then w2\<lparr>csv_files := csv_files w2
                                                          @ [(data_csv_path (datatype' u3)
                                                                (unit_no u3) date, df)]\<rparr>
                                                   else w2)
                                         in Inr (Some (errors u3, warnings u3), u3,
                                                 Log_write newline w3)))))))"

section \<open>Quality counts (\<open>QualityChecker._check_data_quality\<close>, src/main.py)\<close>

text \<open>
  Modelled from the spec: the module \<open>channels\<close> is not among the sources. A channel of
  the registry has a column-matching pattern and an inclusive numeric range.
\<close>

record channel_info =
  regex :: string
  min_value :: real
  max_value :: real

text \<open>
  What the engine takes from outside: the registry (a dict, in the order of its keys),
  whether a pattern matches a column name (\<open>str.contains(..., regex=True)\<close>), and
  Python's \<open>float\<close> and \<open>int\<close> on strings (\<open>None\<close> where they raise ValueError).
\<close>

record library =
  registry :: "(string \<times> channel_info) list"
  re_contains :: "string \<Rightarrow> string \<Rightarrow> bool"
  py_float :: "string \<Rightarrow> pyfloat option"
  py_int :: "string \<Rightarrow> int option"

fun isna :: "pyval \<Rightarrow> bool" where
  \<comment> \<open>\<open>pd.isna(value)\<close>\<close>
  "isna VNone = True"
| "isna (VFloat NaN) = True"
| "isna _ = False"

fun is_number :: "pyval \<Rightarrow> bool" where
  \<comment> \<open>\<open>isinstance(value, (int, float))\<close>; a bool is an int\<close>
  "is_number (VBool b) = True"
| "is_number (VInt i) = True"
| "is_number (VFloat f) = True"
| "is_number _ = False"

fun number_of :: "pyval \<Rightarrow> pyfloat" where
  "number_of (VBool b) = Fin (if b then 1 else 0)"
| "number_of (VInt i) = Fin (of_int i)"
| "number_of (VFloat f) = f"
| "number_of _ = NaN"

definition in_range :: "channel_info \<Rightarrow> pyval \<Rightarrow> bool" where
  \<comment> \<open>\<open>channel_info.min_value <= value <= channel_info.max_value\<close>\<close>
  "in_range ci v = (pyfloat_le (Fin (min_value ci)) (number_of v)
                    \<and> pyfloat_le (number_of v) (Fin (max_value ci)))"

text \<open>The counters are (good, missing, bad). The second \<open>if\<close> of the loop body:\<close>

definition range_count :: "channel_info \<Rightarrow> pyval \<Rightarrow> nat \<times> nat \<times> nat \<Rightarrow> nat \<times> nat \<times> nat" where
  "range_count ci v c =
     (case c of (good_count, missing_count, bad_count) \<Rightarrow>
        if is_number v
        then (if in_range ci v then (good_count + 1, missing_count, bad_count)
              else (good_count, missing_count, bad_count + 1))
        else (good_count, missing_count, bad_count))"

text \<open>
  The loop body, lines 57 to 70. The first branch counts the value as missing and falls
  through to the second \<open>if\<close>; the \<open>except\<close> branch counts it as missing and continues
  with the next value; a string that \<open>float\<close> accepts goes on as that float.
\<close>

definition count_value ::
  "library \<Rightarrow> channel_info \<Rightarrow> pyval \<Rightarrow> nat \<times> nat \<times> nat \<Rightarrow> nat \<times> nat \<times> nat" where
  "count_value lib ci v c =
     (case c of (good_count, missing_count, bad_count) \<Rightarrow>
        if isna v \<or> v = VStr []
        then range_count ci v (good_count, missing_count + 1, bad_count)
        else if \<not> is_number v
        then (case (case v of VStr s \<Rightarrow> py_float lib s | _ \<Rightarrow> None) of
                None \<Rightarrow> (good_count, missing_count + 1, bad_count)
              | Some f \<Rightarrow> range_count ci (VFloat f) (good_count, missing_count, bad_count))
        else range_count ci v (good_count, missing_count, bad_count))"

definition count_values :: "library \<Rightarrow> channel_info \<Rightarrow> pyval list \<Rightarrow> nat list" where
  "count_values lib ci vals =
     (case fold (count_value lib ci) vals (0, 0, 0) of
        (good_count, missing_count, bad_count) \<Rightarrow> [good_count, missing_count, bad_count])"

definition monitored :: "(string \<times> bool) list \<Rightarrow> string \<Rightarrow> bool" where
  \<comment> \<open>\<open>unit_config['channels'].get(channel_name, False)\<close>\<close>
  "monitored chs channel_name = (case map_of chs channel_name of Some b \<Rightarrow> b | None \<Rightarrow> False)"

text \<open>
  \<open>_check_data_quality(self, data, unit_config, channel_name)\<close>: \<open>None\<close> for a channel
  that is not monitored or has no column (or a table with no rows), else the three counts
  of the first matching column.
\<close>

definition check_data_quality ::
  "library \<Rightarrow> dataframe \<Rightarrow> unit_json \<Rightarrow> string \<Rightarrow> exn + nat list option" where
  "check_data_quality lib df unit_config channel_name =
     (if \<not> monitored (j_channels unit_config) channel_name then Inr None
      else (case map_of (registry lib) channel_name of
              None \<Rightarrow> Inl (OtherException ''KeyError'')
            | Some ci \<Rightarrow>
                (case filter (\<lambda>i. re_contains lib (regex ci) (columns df ! i))
                        [0 ..< length (columns df)] of
                   [] \<Rightarrow> Inr None
                 | i # _ \<Rightarrow>
                     if rows df = [] then Inr None
                     else Inr (Some (count_values lib ci (column_at df i))))))"

definition format_quality_result :: "nat list option \<Rightarrow> string" where
  "format_quality_result counts =
     (case counts of
        Some [g, m, b] \<Rightarrow>
          ''Good: '' @ str_nat g @ '', Missing: '' @ str_nat m @ '', Bad: '' @ str_nat b
      | _ \<Rightarrow> ''Good: 0, Missing: 0, Bad: 0'')"

section \<open>Cell shading (\<open>QualityChecker._apply_conditional_formatting\<close>)\<close>

datatype fill = No_fill | Red_fill | Yellow_fill

record cell =
  cell_value :: pyval
  fill :: fill

fun truthy :: "pyval \<Rightarrow> bool" where
  "truthy VNone = False"
| "truthy (VBool b) = b"
| "truthy (VInt i) = (i \<noteq> 0)"
| "truthy (VFloat f) = (f \<noteq> Fin 0)"
| "truthy (VStr s) = (s \<noteq> [])"

text \<open>\<open>int(parts[i].split(': ')[1])\<close>, with the IndexError and the ValueError it can raise.\<close>

definition count_field :: "library \<Rightarrow> string list \<Rightarrow> nat \<Rightarrow> exn + int" where
  "count_field lib parts i =
     (if i < length parts
      then (case split (parts ! i) '': '' of
              _ # x # _ \<Rightarrow>
                (case py_int lib x of
                   Some n \<Rightarrow> Inr n
                 | None \<Rightarrow> Inl (ValueError ''invalid literal for int()''))
            | _ \<Rightarrow> Inl (OtherException ''IndexError''))
      else Inl (OtherException ''IndexError''))"

definition parse_counts :: "library \<Rightarrow> string \<Rightarrow> exn + (int \<times> int \<times> int)" where
  "parse_counts lib s =
     (let parts = split s '', ''
      in case count_field lib parts 0 of
           Inl e \<Rightarrow> Inl e
         | Inr good \<Rightarrow>
             (case count_field lib parts 1 of
                Inl e \<Rightarrow> Inl e
              | Inr missing \<Rightarrow>
                  (case count_field lib parts 2 of
                     Inl e \<Rightarrow> Inl e
                   | Inr bad \<Rightarrow> Inr (good, missing, bad))))"

text \<open>
  Lines 91 to 97, with \<open>total\<close> and \<open>problem_percentage\<close> as the source names them.
  The quotient is taken in the real numbers; the floating-point rounding of the source is
  not modelled.
\<close>

definition shade :: "int \<Rightarrow> int \<Rightarrow> int \<Rightarrow> cell \<Rightarrow> cell" where
  "shade good missing bad c =
     (let total = good + missing + bad
      in if total > 0
         then (let problem_percentage = real_of_int (missing + bad) / real_of_int total * 100
               in if problem_percentage > 5 then c\<lparr>fill := Red_fill\<rparr>
                  else if problem_percentage > 1 then c\<lparr>fill := Yellow_fill\<rparr>
                  else c)
         else c)"

definition format_cell :: "library \<Rightarrow> cell \<Rightarrow> exn + cell" where
  "format_cell lib c =
     (if truthy (cell_value c)
      then (case cell_value c of
              VStr s \<Rightarrow>
                (case parse_counts lib s of
                   Inl e \<Rightarrow> Inl e
                 | Inr (good, missing, bad) \<Rightarrow> Inr (shade good missing bad c))
            | _ \<Rightarrow> Inl (OtherException ''AttributeError''))
      else Inr c)"

fun format_cells :: "library \<Rightarrow> cell list \<Rightarrow> exn + cell list" where
  "format_cells lib [] = Inr []"
| "format_cells lib (c # cs) =
     (case format_cell lib c of
        Inl e \<Rightarrow> Inl e
      | Inr c' \<Rightarrow> (case format_cells lib cs of Inl e \<Rightarrow> Inl e | Inr cs' \<Rightarrow> Inr (c' # cs')))"

text \<open>One row: \<open>for cell in row[1:]\<close>, the first cell (the period label) is skipped.\<close>

definition format_row :: "library \<Rightarrow> cell list \<Rightarrow> exn + cell list" where
  "format_row lib row =
     (case row of
        [] \<Rightarrow> Inr []
      | label # cs \<Rightarrow> (case format_cells lib cs of Inl e \<Rightarrow> Inl e | Inr cs' \<Rightarrow> Inr (label # cs')))"

fun format_rows :: "library \<Rightarrow> cell list list \<Rightarrow> exn + cell list list" where
  "format_rows lib [] = Inr []"
| "format_rows lib (r # rs) =
     (case format_row lib r of
        Inl e \<Rightarrow> Inl e
      | Inr r' \<Rightarrow> (case format_rows lib rs of Inl e \<Rightarrow> Inl e | Inr rs' \<Rightarrow> Inr (r' # rs')))"

text \<open>
  \<open>_apply_conditional_formatting(self, worksheet)\<close>: \<open>iter_rows(min_row=2)\<close> skips the
  header row. A worksheet is its rows of cells.
\<close>

definition apply_conditional_formatting :: "library \<Rightarrow> cell list list \<Rightarrow> exn + cell list list" where
  "apply_conditional_formatting lib worksheet =
     (case worksheet of
        [] \<Rightarrow> Inr []
      | header # body \<Rightarrow>
          (case format_rows lib body of Inl e \<Rightarrow> Inl e | Inr body' \<Rightarrow> Inr (header # body')))"

text \<open>A data cell is fit for shading when it is blank or its text parses into counts.\<close>

definition cell_parses :: "library \<Rightarrow> cell \<Rightarrow> bool" where
  "cell_parses lib c =
     (\<not> truthy (cell_value c)
      \<or> (case cell_value c of
            VStr s \<Rightarrow> (case parse_counts lib s of Inr _ \<Rightarrow> True | Inl _ \<Rightarrow> False)
          | _ \<Rightarrow> False))"

definition sheet_parses :: "library \<Rightarrow> cell list list \<Rightarrow> bool" where
  "sheet_parses lib worksheet = list_all (\<lambda>row. list_all (cell_parses lib) (tl row)) (tl worksheet)"

section \<open>The quality report (\<open>process_data\<close>, \<open>update_quality_report\<close>)\<close>

text \<open>
  The data tree under \<open>output_dir\<close>: for a device number, the listing of its folder
  \<open>UNIT <n>\<close>, each file with what \<open>pd.read_csv\<close> gives on it, or \<open>None\<close> when the
  folder does not exist. The results of \<open>process_data\<close> are a dict from channel name to
  the three counts.
\<close>

type_synonym data_tree = "int \<Rightarrow> (string \<times> (exn + dataframe)) list option"

type_synonym results = "(string \<times> nat list) list"

definition init_results :: "library \<Rightarrow> unit_json \<Rightarrow> results" where
  "init_results lib unit_config =
     map (\<lambda>channel_name. (channel_name, [0, 0, 0]))
       (filter (monitored (j_channels unit_config)) (map fst (registry lib)))"

text \<open>
  The loop over the channels for one file, lines 122 to 126. An exception leaves the loop
  for the handler of line 127, which goes on with the next file: what was added for the
  earlier channels stays.
\<close>

fun file_channels :: "library \<Rightarrow> dataframe \<Rightarrow> unit_json \<Rightarrow> string list \<Rightarrow> results \<Rightarrow> results" where
  "file_channels lib df unit_config [] res = res"
| "file_channels lib df unit_config (channel_name # rest) res =
     (if monitored (j_channels unit_config) channel_name
      then (case check_data_quality lib df unit_config channel_name of
              Inl e \<Rightarrow> res
            | Inr None \<Rightarrow> file_channels lib df unit_config rest res
            | Inr (Some quality) \<Rightarrow>
                (case map_of res channel_name of
                   None \<Rightarrow> res
                 | Some old \<Rightarrow>
                     file_channels lib df unit_config rest
                       (map (\<lambda>(k, v). if k = channel_name
                                        then (k, map (\<lambda>(x, y). x + y) (zip old quality))
                                        else (k, v)) res)))
      else file_channels lib df unit_config rest res)"

fun process_files ::
  "library \<Rightarrow> unit_json \<Rightarrow> string \<Rightarrow> (string \<times> (exn + dataframe)) list \<Rightarrow> results \<Rightarrow> results" where
  "process_files lib unit_config month [] res = res"
| "process_files lib unit_config month ((fname, content) # rest) res =
     (if str_in month fname \<and> endswith fname ''.csv''
      then (case content of
              Inl e \<Rightarrow> process_files lib unit_config month rest res
            | Inr df \<Rightarrow>
                process_files lib unit_config month rest
                  (file_channels lib df unit_config (map fst (registry lib)) res))
      else process_files lib unit_config month rest res)"

text \<open>
  \<open>process_data(self, data_path, unit_no, month, data_type)\<close>, with \<open>self.units\<close> a
  dict from device number to configuration: \<open>None\<close> when the device has no folder.
\<close>

definition process_data ::
  "library \<Rightarrow> (int \<times> unit_json) list \<Rightarrow> data_tree \<Rightarrow> int \<Rightarrow> string \<Rightarrow> string
     \<Rightarrow> exn + results option" where
  "process_data lib units tree n month data_type =
     (case map_of units n of
        None \<Rightarrow> Inl (OtherException ''KeyError'')
      | Some unit_config \<Rightarrow>
          (case tree n of
             None \<Rightarrow> Inr None
           | Some files \<Rightarrow>
               Inr (Some (process_files lib unit_config month files
                            (init_results lib unit_config)))))"

text \<open>
  A report as a DataFrame: the channel columns and the rows, each a period label (the
  index) with one text per column. A label written by the engine is a string; a label
  read back from a spreadsheet is whatever \<open>read_excel\<close> made of the cell.
\<close>

record report =
  report_columns :: "string list"
  report_rows :: "(pyval \<times> string list) list"

definition report_index :: "report \<Rightarrow> pyval list" where
  "report_index r = map fst (report_rows r)"

text \<open>
  \<open>report_df.sort_index()\<close>: rows with a missing label go last; the other labels must
  compare with each other, so they are all strings (sorted as strings) or all numbers
  (sorted by value, the infinities at the ends), and a mix raises TypeError. Rows with
  equal labels keep their order.
\<close>

fun label_text :: "pyval \<Rightarrow> string option" where
  "label_text (VStr s) = Some s"
| "label_text _ = None"

fun label_number :: "pyval \<Rightarrow> real option" where
  "label_number (VBool b) = Some (if b then 1 else 0)"
| "label_number (VInt i) = Some (of_int i)"
| "label_number (VFloat (Fin x)) = Some x"
| "label_number _ = None"

definition sort_index :: "report \<Rightarrow> exn + report" where
  "sort_index r =
     (let present = filter (\<lambda>row. \<not> isna (fst row)) (report_rows r);
          missing = filter (\<lambda>row. isna (fst row)) (report_rows r);
          finite = filter (\<lambda>row. label_number (fst row) \<noteq> None) present
      in if list_all (\<lambda>row. label_text (fst row) \<noteq> None) present
         then Inr (r\<lparr>report_rows := sort_key (\<lambda>row. the (label_text (fst row))) present
                                        @ missing\<rparr>)
         else if list_all (\<lambda>row. is_number (fst row)) present
         then Inr (r\<lparr>report_rows :=
                       filter (\<lambda>row. fst row = VFloat NegInf) present
                       @ sort_key (\<lambda>row. the (label_number (fst row))) finite
                       @ filter (\<lambda>row. fst row = VFloat PosInf) present
                       @ missing\<rparr>)
         else Inl (OtherException ''TypeError''))"

text \<open>
  The spreadsheet file: \<open>to_excel\<close> followed by \<open>load_workbook\<close> gives the worksheet of
  a report, \<open>pd.read_excel(report_file, index_col=0)\<close> reads a saved worksheet back.
  Both belong to pandas and openpyxl and are parameters.
\<close>

record excel =
  to_excel :: "report \<Rightarrow> cell list list"
  read_excel :: "cell list list \<Rightarrow> exn + report"

text \<open>
  Lines 155 to 163: the period label of a file name, for the files that count. The
  labels form a set; the model iterates it in the order of the listing.
\<close>

definition month_label :: "string \<Rightarrow> string \<Rightarrow> string option" where
  "month_label data_type fname =
     (if str_in data_type fname \<and> endswith fname ''.csv''
      then (let date_str = remove_all (last (split fname ''_'')) ''.csv''
            in if length date_str \<ge> 7 then Some (take 7 date_str) else None)
      else None)"

definition months_of :: "string \<Rightarrow> (string \<times> (exn + dataframe)) list \<Rightarrow> string list" where
  "months_of data_type files = remdups (List.map_filter (month_label data_type) (map fst files))"

definition results_truthy :: "results option \<Rightarrow> bool" where
  \<comment> \<open>\<open>if results:\<close>\<close>
  "results_truthy res = (case res of None \<Rightarrow> False | Some d \<Rightarrow> d \<noteq> [])"

text \<open>The loop over the months, lines 166 to 174, with the flag \<open>new_data_added\<close>.\<close>

fun add_months ::
  "library \<Rightarrow> (int \<times> unit_json) list \<Rightarrow> data_tree \<Rightarrow> int \<Rightarrow> string \<Rightarrow> string list
     \<Rightarrow> report \<Rightarrow> bool \<Rightarrow> exn + (report \<times> bool)" where
  "add_months lib units tree n data_type [] report_df new_data_added =
     Inr (report_df, new_data_added)"
| "add_months lib units tree n data_type (month # rest) report_df new_data_added =
     (if VStr month \<notin> set (report_index report_df)
      then (case process_data lib units tree n month data_type of
              Inl e \<Rightarrow> Inl e
            | Inr res \<Rightarrow>
                if results_truthy res
                then add_months lib units tree n data_type rest
                       (report_df\<lparr>report_rows := report_rows report_df
                           @ [(VStr month, map (\<lambda>ch. format_quality_result (map_of (the res) ch))
                                        (report_columns report_df))]\<rparr>)
                       True
                else add_months lib units tree n data_type rest report_df new_data_added)
      else add_months lib units tree n data_type rest report_df new_data_added)"

text \<open>
  The body of the loop over the units, lines 139 to 189, for one unit: \<open>report_file\<close> is
  the saved worksheet of the unit's report, if the file exists. The result is the
  worksheet saved, or \<open>None\<close> when the unit is passed over (no folder, or no new data).
\<close>

definition update_unit_report ::
  "library \<Rightarrow> excel \<Rightarrow> (int \<times> unit_json) list \<Rightarrow> data_tree \<Rightarrow> string \<Rightarrow> int
     \<Rightarrow> cell list list option \<Rightarrow> exn + cell list list option" where
  "update_unit_report lib xl units tree data_type n report_file =
     (case tree n of
        None \<Rightarrow> Inr None
      | Some files \<Rightarrow>
          (case (case report_file of
                   Some ws \<Rightarrow> read_excel xl ws
                 | None \<Rightarrow>
                     (case map_of units n of
                        None \<Rightarrow> Inl (OtherException ''KeyError'')
                      | Some unit_config \<Rightarrow>
                          Inr \<lparr> report_columns =
                                  filter (monitored (j_channels unit_config))
                                    (map fst (registry lib)),
                                report_rows = [] \<rparr>)) of
             Inl e \<Rightarrow> Inl e
           | Inr report_df \<Rightarrow>
               (case add_months lib units tree n data_type (months_of data_type files)
                       report_df False of
                  Inl e \<Rightarrow> Inl e
                | Inr (report_df', new_data_added) \<Rightarrow>
                    if \<not> new_data_added then Inr None
                    else (case sort_index report_df' of
                            Inl e \<Rightarrow> Inl e
                          | Inr sorted_df \<Rightarrow>
                              (case apply_conditional_formatting lib (to_excel xl sorted_df) of
                                 Inl e \<Rightarrow> Inl e
                               | Inr ws \<Rightarrow> Inr (Some ws))))))"

text \<open>
  The report files, by device number and lower-cased granularity (the two parts of the
  file name \<open>unit_<n>_<granularity>_quality.xlsx\<close>), and the loop over the units. The
  result is the files after the run and the devices whose report was saved.
\<close>

type_synonym report_files = "int \<times> string \<Rightarrow> cell list list option"

fun update_units ::
  "library \<Rightarrow> excel \<Rightarrow> (int \<times> unit_json) list \<Rightarrow> data_tree \<Rightarrow> string \<Rightarrow> int list
     \<Rightarrow> report_files \<Rightarrow> exn + (report_files \<times> int list)" where
  "update_units lib xl units tree data_type [] store = Inr (store, [])"
| "update_units lib xl units tree data_type (n # ns) store =
     (case update_unit_report lib xl units tree data_type n (store (n, lower data_type)) of
        Inl e \<Rightarrow> Inl e
      | Inr None \<Rightarrow> update_units lib xl units tree data_type ns store
      | Inr (Some ws) \<Rightarrow>
          (case update_units lib xl units tree data_type ns
                  (store((n, lower data_type) \<mapsto> ws)) of
             Inl e \<Rightarrow> Inl e
           | Inr (store', saved) \<Rightarrow> Inr (store', n # saved)))"

definition update_quality_report ::
  "library \<Rightarrow> excel \<Rightarrow> (int \<times> unit_json) list \<Rightarrow> data_tree \<Rightarrow> string \<Rightarrow> report_files
     \<Rightarrow> exn + (report_files \<times> int list)" where
  "update_quality_report lib xl units tree data_type store =
     update_units lib xl units tree data_type (map fst units) store"

section \<open>Example inputs\<close>

definition json_77 :: unit_json where
  "json_77 = \<lparr> j_unit_no = 77, j_block = 3, j_ip_address = ''10.0.0.77'', j_port = ''8080'',
     j_serial = ''DB77'', j_channels = [(''Power'', True)] \<rparr>"

definition json_5 :: unit_json where
  "json_5 = \<lparr> j_unit_no = 5, j_block = 1, j_ip_address = ''10.0.0.5'', j_port = ''8080'',
     j_serial = ''DB5'', j_channels = [(''Power'', True)] \<rparr>"

definition example_config_dir :: "(string \<times> config_file) list" where
  "example_config_dir =
     [(''unit_77.json'', Config json_77), (''notes.txt'', Malformed ''not json''),
      (''unit_5.json'', Config json_5)]"

definition world_0 :: world where
  "world_0 = \<lparr> log_lines = [], failed_downloads = [], sent_emails = [], drive_queries = [],
     csv_files = [] \<rparr>"

text \<open>Python's \<open>float\<close> on the strings the examples use.\<close>

definition float_table :: "string \<Rightarrow> pyfloat option" where
  "float_table s =
     (if s = ''40'' then Some (Fin 40)
      else if s = ''12.5'' then Some (Fin 12.5)
      else if s = ''0.5'' then Some (Fin 0.5)
      else None)"

definition table_1 :: dataframe where
  "table_1 = \<lparr> columns = [''Time'', ''Power''],
                rows = [[VInt 1, VFloat (Fin 10)], [VInt 2, VFloat (Fin 11)]] \<rparr>"

definition no_checks :: checks where
  "no_checks = \<lparr> check_missing_rows = (\<lambda>df n. ([], [], [])),
                  check_total_energy = (\<lambda>df n. ([], [])),
                  channel_check = (\<lambda>name. Some (\<lambda>df n bad. ([], []))),
                  last_month = ''2024-01'' \<rparr>"

text \<open>
  Python's \<open>int\<close> on the strings of decimal digits, and a library for the examples: one
  channel, patterns without metacharacters (they match where they occur).
\<close>

definition decimal :: "string \<Rightarrow> int option" where
  "decimal s =
     (if s \<noteq> [] \<and> list_all (\<lambda>c. c \<in> set ''0123456789'') s
      then Some (int (fold (\<lambda>c n. 10 * n + (of_char c - (48::nat))) s 0))
      else None)"

definition lib_0 :: library where
  "lib_0 = \<lparr> registry = [(''Power'', \<lparr> regex = ''Power'', min_value = 0, max_value = 100 \<rparr>)],
             re_contains = str_in, py_float = float_table, py_int = decimal \<rparr>"

definition table_nan :: dataframe where
  "table_nan = \<lparr> columns = [''Time'', ''Power (kW)''],
                  rows = [[VStr ''2024-01-01 00:00:00'', VFloat NaN]] \<rparr>"

definition text_cell :: "string \<Rightarrow> cell" where
  "text_cell s = \<lparr> cell_value = VStr s, fill = No_fill \<rparr>"

definition sheet_1 :: "cell list list" where
  "sheet_1 =
     [[\<lparr> cell_value = VNone, fill = No_fill \<rparr>, text_cell ''Power'', text_cell ''Flow'',
       text_cell ''Energy''],
      [text_cell ''2024-01'', text_cell ''Good: 94, Missing: 0, Bad: 6'',
       text_cell ''Good: 98, Missing: 1, Bad: 1'', text_cell ''Good: 100, Missing: 0, Bad: 0''],
      [text_cell ''2024-02'', text_cell ''Good: 9, Missing: 1, Bad: 0'',
       text_cell ''Good: 49, Missing: 0, Bad: 1'', text_cell ''Good: 199, Missing: 1, Bad: 0'']]"

text \<open>
  The conversion to timestamps of the examples: a column of ints converts, each int the
  nanoseconds since the epoch, and a column with another value raises ValueError.
  \<open>time_table\<close> is a table with the given timestamp column.
\<close>

fun epoch_to_datetime :: "pyval list \<Rightarrow> exn + timestamp list" where
  "epoch_to_datetime [] = Inr []"
| "epoch_to_datetime (VInt n # vs) =
     (case epoch_to_datetime vs of Inl e \<Rightarrow> Inl e | Inr ts \<Rightarrow> Inr (At n # ts))"
| "epoch_to_datetime (v # vs) = Inl (ValueError ''Unknown datetime string format'')"

definition time_table :: "pyval list \<Rightarrow> dataframe" where
  "time_table ts = \<lparr> columns = [''Time'', ''Power''], rows = map (\<lambda>t. [t, VFloat (Fin 10)]) ts \<rparr>"

text \<open>
  Three outside worlds for the examples. In \<open>offline_env\<close> every fetch raises a network
  error and the cloud folder is empty. In \<open>one_day_env\<close> the unit of \<open>json_5\<close> answers
  for 2024-01-05 with \<open>table_1\<close> and is unreachable for every other date. In
  \<open>overflow_env\<close> every fetch gives \<open>table_1\<close> and the conversion of its timestamps
  raises an OverflowError.
\<close>

definition offline_env :: env where
  "offline_env = \<lparr> read_csv = (\<lambda>url. Inl (OtherException ''<urlopen error timed out>'')),
       to_datetime = epoch_to_datetime, drive_service = None, drive_list = (\<lambda>q. Inr []),
       drive_read = (\<lambda>file_id. Inl (OtherException ''File not found'')) \<rparr>"

definition one_day_env :: env where
  "one_day_env = offline_env\<lparr> read_csv := (\<lambda>url.
       if url = ''http://10.0.0.5:8080/index.php/pages/export/exportDaily/DB5/2024-01-05''
       then Inr table_1 else Inl (OtherException ''<urlopen error timed out>'')) \<rparr>"

definition overflow_env :: env where
  "overflow_env = offline_env\<lparr> read_csv := (\<lambda>url. Inr table_1),
       to_datetime := (\<lambda>col. Inl (OtherException ''OverflowError'')) \<rparr>"

text \<open>
  The spreadsheet layer of the examples, after pandas and openpyxl. \<open>to_excel\<close> writes
  the header row (a blank corner cell and the channel names), then one row per period
  (the label and the texts). \<open>read_excel\<close> reads the cells back and infers the type of
  the index column: labels that are all strings of digits come back as ints.
\<close>

definition cell_text :: "cell \<Rightarrow> string" where
  "cell_text c = (case cell_value c of VStr s \<Rightarrow> s | _ \<Rightarrow> [])"

definition digits_label :: "pyval \<Rightarrow> bool" where
  "digits_label v = (case v of VStr s \<Rightarrow> decimal s \<noteq> None | _ \<Rightarrow> False)"

definition infer_labels :: "pyval list \<Rightarrow> pyval list" where
  "infer_labels labels =
     (if labels \<noteq> [] \<and> list_all digits_label labels
      then map (\<lambda>v. case v of VStr s \<Rightarrow> VInt (the (decimal s)) | _ \<Rightarrow> v) labels
      else labels)"

definition pandas_excel :: excel where
  "pandas_excel =
     \<lparr> to_excel = (\<lambda>r. (\<lparr> cell_value = VNone, fill = No_fill \<rparr> # map text_cell (report_columns r))
                        # map (\<lambda>(label, texts). \<lparr> cell_value = label, fill = No_fill \<rparr>
                                                 # map text_cell texts)
                            (report_rows r)),
       read_excel = (\<lambda>ws. case ws of
                        [] \<Rightarrow> Inl (ValueError ''Worksheet is empty'')
                      | header # body \<Rightarrow>
                          Inr \<lparr> report_columns = map cell_text (tl header),
                                report_rows =
                                  zip (infer_labels
                                         (map (\<lambda>row. case row of
                                                        [] \<Rightarrow> VFloat NaN
                                                      | c # cs \<Rightarrow> cell_value c) body))
                                      (map (\<lambda>row. map cell_text (tl row)) body) \<rparr>) \<rparr>"

text \<open>
  One unit, and two data trees with one daily file each: the date of the file name is
  written \<open>2024-01-05\<close> in the first and \<open>20240105\<close> in the second. The sheets are the
  reports a first run saves for them.
\<close>

definition example_units :: "(int \<times> unit_json) list" where
  "example_units = [(5, json_5)]"

definition example_tree :: data_tree where
  "example_tree n =
     (if n = 5 then Some [(''Unit_5_Minute_2024-01-05.csv'', Inr table_1)] else None)"

definition example_sheet :: "cell list list" where
  "example_sheet =
     [[\<lparr> cell_value = VNone, fill = No_fill \<rparr>, text_cell ''Power''],
      [text_cell ''2024-01'', text_cell ''Good: 2, Missing: 0, Bad: 0'']]"

definition digits_tree :: data_tree where
  "digits_tree n =
     (if n = 5 then Some [(''Unit_5_Minute_20240105.csv'', Inr table_1)] else None)"

definition digits_sheet :: "cell list list" where
  "digits_sheet =
     [[\<lparr> cell_value = VNone, fill = No_fill \<rparr>, text_cell ''Power''],
      [text_cell ''2024010'', text_cell ''Good: 2, Missing: 0, Bad: 0'']]"

section \<open>Properties of the loader\<close>

lemma load_units_loop_ok:
  "well_formed_dir d \<Longrightarrow>
   load_units_loop d units = Inr (units @ map new_Unit (json_configs d))"
proof (induction d arbitrary: units)
  case Nil
  then show ?case by simp
next
  case (Cons p d)
  obtain fname c where p: "p = (fname, c)" by (cases p)
  show ?case
  proof (cases c)
    case (Config j)
    with Cons p show ?thesis by simp
  next
    case (Malformed msg)
    with Cons p show ?thesis by simp
  qed
qed

lemma distinct_map_sort_key:
  "distinct (map f (sort_key f xs)) = distinct (map f xs)"
  by (simp add: distinct_map)

lemma unit_no_new_Unit: "unit_no (new_Unit j) = j_unit_no j"
  by (simp add: new_Unit_def)

text \<open>
  C6. A configuration directory whose \<open>.json\<close> files are all well formed, N of them, with
  distinct \<open>unit_no\<close> values, loads to exactly N Unit records, one per file, in strictly
  ascending order of \<open>unit_no\<close>.
\<close>

theorem load_units_sorted:
  assumes "well_formed_dir d"
    and "distinct (map j_unit_no (json_configs d))"
  shows "\<exists>units. load_units d = Inr units
           \<and> length units = length (json_configs d)
           \<and> set units = new_Unit ` set (json_configs d)
           \<and> sorted (map unit_no units)
           \<and> distinct (map unit_no units)"
proof -
  let ?us = "map new_Unit (json_configs d)"
  have loop: "load_units_loop d [] = Inr ?us"
    using load_units_loop_ok [OF assms(1), of "[]"] by simp
  have comp: "unit_no \<circ> new_Unit = j_unit_no"
    by (rule ext) (simp add: unit_no_new_Unit)
  have nos: "map unit_no ?us = map j_unit_no (json_configs d)"
    by (simp add: comp)
  have "distinct (map unit_no (sort_key unit_no ?us)) = distinct (map unit_no ?us)"
    by (rule distinct_map_sort_key)
  then have "distinct (map unit_no (sort_key unit_no ?us))"
    using assms(2) by (simp add: comp)
  then show ?thesis
    using loop by (simp add: load_units_def)
qed

theorem load_units_sorted_witness:
  "well_formed_dir example_config_dir
   \<and> distinct (map j_unit_no (json_configs example_config_dir))
   \<and> (\<exists>units. load_units example_config_dir = Inr units
         \<and> length units = 2 \<and> map unit_no units = [5, 77])"
proof -
  have wf: "well_formed_dir example_config_dir"
    by (simp add: example_config_dir_def endswith_def)
  have cf: "json_configs example_config_dir = [json_77, json_5]"
    by (simp add: example_config_dir_def endswith_def)
  have di: "distinct (map j_unit_no (json_configs example_config_dir))"
    by (simp add: cf json_77_def json_5_def)
  obtain units where ld: "load_units example_config_dir = Inr units"
    and len: "length units = length (json_configs example_config_dir)"
    and st: "set units = new_Unit ` set (json_configs example_config_dir)"
    and so: "sorted (map unit_no units)"
    and dt: "distinct (map unit_no units)"
    using load_units_sorted [OF wf di] by blast
  have "set (map unit_no units) = {5, 77}"
    using st by (simp add: cf image_image unit_no_new_Unit json_77_def json_5_def insert_commute)
  moreover have "length (map unit_no units) = 2"
    using len by (simp add: cf)
  ultimately have "map unit_no units = [5, 77]"
    using so dt by (auto simp: length_Suc_conv numeral_2_eq_2 doubleton_eq_iff)
  then show ?thesis
    using wf di ld len by (simp add: cf)
qed

section \<open>Properties of the storage check\<close>

text \<open>
  C8, as the claim states it, fails on a value of 40 GB: the unit is not treated as
  healthy, the warning is logged and the alert is sent.
\<close>

theorem check_space_40_alerts:
  "check_space float_table (new_Unit json_5) world_0 (Inr ''40'') =
     Inr (world_0\<lparr>
       log_lines := [''Unit 5: Less than 1GB of space available on the SD card: 40 GB''],
       sent_emails := [(''Maple West SD Card Storage Almost Full'',
          ''Unit 5: Less than 1GB of space available on the SD card'' @ newline @ newline
            @ ''40 GB left'' @ newline @ newline @ ''http://10.0.0.5:8080'')]\<rparr>)"
  by (simp add: check_space_def float_table_def is_float_def pyfloat_lt_def new_Unit_def
      json_5_def world_0_def Log_write_def send_email_def str_int_def str_nat.simps
      digit_char_def)

text \<open>
  C8, amended. From a scraped value \<open>space\<close> on, \<open>check_space\<close> returns. When the value
  parses as a number strictly between 1 and 40 it appends one informational line to the log
  and sends nothing. In every other case (the value does not parse, is NaN, is at or below
  1, or is at or above 40) it appends the warning line to the log and sends one alert.
\<close>

theorem check_space_cases:
  "\<exists>w'. check_space pyf u w (Inr space) = Inr w'
     \<and> failed_downloads w' = failed_downloads w
     \<and> (if \<exists>f. pyf space = Some f \<and> pyfloat_lt (Fin 1) f \<and> pyfloat_lt f (Fin 40)
         then sent_emails w' = sent_emails w
              \<and> log_lines w' = log_lines w
                   @ [''Unit '' @ str_int (unit_no u) @ '': '' @ space @ '' GB left on the SD card'']
         else length (sent_emails w') = Suc (length (sent_emails w))
              \<and> fst (last (sent_emails w')) = ''Maple West SD Card Storage Almost Full''
              \<and> log_lines w' = log_lines w
                   @ [''Unit '' @ str_int (unit_no u)
                        @ '': Less than 1GB of space available on the SD card: '' @ space @ '' GB''])"
  by (cases "pyf space")
     (simp_all add: check_space_def is_float_def Log_write_def send_email_def)

theorem check_space_cases_witness:
  "(\<exists>w'. check_space float_table (new_Unit json_5) world_0 (Inr ''12.5'') = Inr w'
      \<and> sent_emails w' = []
      \<and> log_lines w' = [''Unit 5: 12.5 GB left on the SD card''])
   \<and> (\<exists>w'. check_space float_table (new_Unit json_5) world_0 (Inr ''0.5'') = Inr w'
      \<and> length (sent_emails w') = 1)
   \<and> (\<exists>w'. check_space float_table (new_Unit json_5) world_0 (Inr ''full'') = Inr w'
      \<and> length (sent_emails w') = 1)"
proof -
  have u: "str_int (unit_no (new_Unit json_5)) = ''5''"
    by (simp add: new_Unit_def json_5_def str_int_def str_nat.simps digit_char_def)
  have a: "\<exists>f. float_table ''12.5'' = Some f \<and> pyfloat_lt (Fin 1) f \<and> pyfloat_lt f (Fin 40)"
    by (simp add: float_table_def pyfloat_lt_def)
  have b: "\<not> (\<exists>f. float_table ''0.5'' = Some f \<and> pyfloat_lt (Fin 1) f \<and> pyfloat_lt f (Fin 40))"
    by (simp add: float_table_def pyfloat_lt_def)
  have c: "\<not> (\<exists>f. float_table ''full'' = Some f \<and> pyfloat_lt (Fin 1) f \<and> pyfloat_lt f (Fin 40))"
    by (simp add: float_table_def)
  show ?thesis
    using check_space_cases [of float_table "new_Unit json_5" world_0 "''12.5''"]
      check_space_cases [of float_table "new_Unit json_5" world_0 "''0.5''"]
      check_space_cases [of float_table "new_Unit json_5" world_0 "''full''"]
    unfolding if_P [OF a] if_not_P [OF b] if_not_P [OF c] u
    by (auto simp: world_0_def)
qed

section \<open>Properties of the unit's quality check\<close>

lemma check_quality_no_data:
  "data u = None \<Longrightarrow>
   check_quality ck u w save_files date = Inr (Some (errors u, warnings u), u, w)"
  by (simp add: check_quality_def)

lemma check_quality_hour:
  assumes "data u = Some df" and "datatype' u = ''Hour''"
  shows "\<exists>u' w'. check_quality ck u w save_files date = Inr (None, u', w')
           \<and> errors u' = errors u @ fst (check_missing_rows ck df (unit_no u))
           \<and> warnings u' = warnings u @ fst (snd (check_missing_rows ck df (unit_no u)))
           \<and> csv_files w' = (if save_files
                then csv_files w @ [(data_csv_path ''Hour'' (unit_no u) (last_month ck), df)]
                else csv_files w)"
  using assms
  by (cases "check_missing_rows ck df (unit_no u)")
     (simp add: check_quality_def Log_write_def Let_def)

text \<open>
  C9 at a unit holding hour data: the early exit is a bare \<open>return\<close>, so the call gives
  Python's None and not the pair of lists; the two other exits return the pair.
\<close>

theorem check_quality_hour_returns_none:
  "check_quality no_checks ((new_Unit json_5)\<lparr>data := Some table_1, datatype' := ''Hour''\<rparr>)
     world_0 False ''2024-01-05''
   = Inr (None, (new_Unit json_5)\<lparr>data := Some table_1, datatype' := ''Hour''\<rparr>,
          world_0\<lparr>log_lines := [''Checking Unit 5: 10.0.0.5:8080'']\<rparr>)"
  by (simp add: check_quality_def no_checks_def new_Unit_def json_5_def world_0_def
      Log_write_def str_int_def str_nat.simps digit_char_def)

section \<open>Properties of the quality counts\<close>

text \<open>
  Every value adds one to the sum of the three counters, except a NaN (an empty cell),
  which adds two: it is counted as missing and, being a float outside every range, as bad.
\<close>

lemma count_value_sum:
  "count_value lib ci v (g, m, b) = (g', m', b') \<Longrightarrow>
   g' + m' + b' = g + m + b + (if v = VFloat NaN then 2 else 1)"
  by (cases v; cases "number_of v")
     (auto simp: count_value_def range_count_def in_range_def
           split: if_splits option.splits pyfloat.splits)

lemma fold_count_value_sum:
  "fold (count_value lib ci) vals (g, m, b) = (g', m', b') \<Longrightarrow>
   g' + m' + b' = g + m + b + length vals + length (filter (\<lambda>v. v = VFloat NaN) vals)"
proof (induction vals arbitrary: g m b)
  case Nil
  then show ?case by simp
next
  case (Cons v vals)
  obtain g1 m1 b1 where st: "count_value lib ci v (g, m, b) = (g1, m1, b1)"
    by (cases "count_value lib ci v (g, m, b)") auto
  from Cons.prems st have "fold (count_value lib ci) vals (g1, m1, b1) = (g', m', b')"
    by simp
  from Cons.IH [OF this] count_value_sum [OF st] show ?case by simp
qed

text \<open>
  One value at a time: a number that is not NaN is good when it lies in the range, bounds
  included, and bad otherwise; None, the empty string and a string that \<open>float\<close> rejects
  are missing; NaN is both missing and bad.
\<close>

lemma count_value_number:
  "is_number v \<Longrightarrow> v \<noteq> VFloat NaN \<Longrightarrow>
   count_value lib ci v (g, m, b) = (if in_range ci v then (g + 1, m, b) else (g, m, b + 1))"
  by (cases v; cases "number_of v") (auto simp: count_value_def range_count_def)

lemma in_range_bounds:
  "min_value ci \<le> max_value ci \<Longrightarrow>
   in_range ci (VFloat (Fin (min_value ci))) \<and> in_range ci (VFloat (Fin (max_value ci)))
   \<and> \<not> in_range ci (VFloat (Fin (min_value ci - 1)))
   \<and> \<not> in_range ci (VFloat (Fin (max_value ci + 1)))"
  by (simp add: in_range_def)

lemma count_value_missing:
  "v = VNone \<or> v = VStr [] \<or> (\<exists>s. v = VStr s \<and> py_float lib s = None) \<Longrightarrow>
   count_value lib ci v (g, m, b) = (g, m + 1, b)"
  by (auto simp: count_value_def range_count_def)

lemma count_value_nan:
  "count_value lib ci (VFloat NaN) (g, m, b) = (g, m + 1, b + 1)"
  by (simp add: count_value_def range_count_def in_range_def)

text \<open>
  C2 at a column holding one empty cell: the counts are good 0, missing 1, bad 1, so one
  value is classified twice and the counts add up to 2.
\<close>

theorem check_data_quality_nan_twice:
  "check_data_quality lib_0 table_nan json_5 ''Power'' = Inr (Some [0, 1, 1])"
  by (simp add: check_data_quality_def lib_0_def table_nan_def json_5_def monitored_def
      count_values_def count_value_def range_count_def in_range_def column_at_def cell_at_def)

section \<open>Properties of the cell shading\<close>

lemma format_cells_Inr:
  "format_cells lib cs = Inr cs' \<Longrightarrow>
   length cs' = length cs \<and> (\<forall>j < length cs. format_cell lib (cs ! j) = Inr (cs' ! j))"
proof (induction cs arbitrary: cs')
  case Nil
  then show ?case by simp
next
  case (Cons c cs)
  then show ?case
    by (auto split: sum.splits simp: nth_Cons split: nat.splits)
qed

lemma format_cells_total:
  "list_all (cell_parses lib) cs \<Longrightarrow> \<exists>cs'. format_cells lib cs = Inr cs'"
proof (induction cs)
  case Nil
  then show ?case by simp
next
  case (Cons c cs)
  then show ?case
    by (auto simp: cell_parses_def format_cell_def split: sum.splits pyval.splits)
qed

lemma format_row_Inr:
  assumes "format_row lib r = Inr r'"
  shows "length r' = length r \<and> (r \<noteq> [] \<longrightarrow> r' ! 0 = r ! 0)
         \<and> (\<forall>j. 0 < j \<and> j < length r \<longrightarrow> format_cell lib (r ! j) = Inr (r' ! j))"
proof (cases r)
  case Nil
  with assms show ?thesis by (simp add: format_row_def)
next
  case (Cons label cs)
  with assms obtain cs' where cs': "format_cells lib cs = Inr cs'" and r': "r' = label # cs'"
    by (auto simp: format_row_def split: sum.splits)
  from format_cells_Inr [OF cs'] show ?thesis
    using Cons r' by (auto simp: nth_Cons split: nat.splits)
qed

lemma format_row_total:
  "list_all (cell_parses lib) (tl r) \<Longrightarrow> \<exists>r'. format_row lib r = Inr r'"
  using format_cells_total [of lib "tl r"]
  by (cases r) (auto simp: format_row_def)

lemma format_rows_Inr:
  "format_rows lib rs = Inr rs' \<Longrightarrow>
   length rs' = length rs \<and> (\<forall>i < length rs. format_row lib (rs ! i) = Inr (rs' ! i))"
proof (induction rs arbitrary: rs')
  case Nil
  then show ?case by simp
next
  case (Cons r rs)
  then show ?case
    by (auto split: sum.splits simp: nth_Cons split: nat.splits)
qed

lemma format_rows_total:
  "list_all (\<lambda>row. list_all (cell_parses lib) (tl row)) rs \<Longrightarrow> \<exists>rs'. format_rows lib rs = Inr rs'"
proof (induction rs)
  case Nil
  then show ?case by simp
next
  case (Cons r rs)
  then obtain rs' where "format_rows lib rs = Inr rs'" by auto
  moreover from Cons.prems obtain r' where "format_row lib r = Inr r'"
    using format_row_total [of lib r] by auto
  ultimately show ?case by simp
qed

lemma format_cell_counts:
  assumes "cell_value c = VStr s" and "s \<noteq> []"
    and "parse_counts lib s = Inr (good, missing, bad)"
  shows "format_cell lib c = Inr (shade good missing bad c)"
  using assms by (simp add: format_cell_def)

text \<open>
  C4. On a worksheet whose data cells (all but the header row and the first column) are
  blank or hold text that parses into counts, the formatting returns, keeps the header row,
  the first column and every cell's text, and shades each populated data cell whose counts
  have a positive total by its problem percentage \<open>(missing + bad) / total * 100\<close>: red
  above 5, yellow above 1 and up to 5, and the fill it had at 1 or below.
\<close>

theorem apply_conditional_formatting_shades:
  assumes "sheet_parses lib ws"
  shows "\<exists>ws'. apply_conditional_formatting lib ws = Inr ws'
     \<and> length ws' = length ws
     \<and> (ws \<noteq> [] \<longrightarrow> ws' ! 0 = ws ! 0)
     \<and> (\<forall>i. 0 < i \<and> i < length ws \<longrightarrow>
           length (ws' ! i) = length (ws ! i)
           \<and> (ws ! i \<noteq> [] \<longrightarrow> ws' ! i ! 0 = ws ! i ! 0)
           \<and> (\<forall>j s good missing bad.
                 0 < j \<and> j < length (ws ! i) \<and> cell_value (ws ! i ! j) = VStr s \<and> s \<noteq> []
                 \<and> parse_counts lib s = Inr (good, missing, bad) \<and> 0 < good + missing + bad
                 \<longrightarrow> cell_value (ws' ! i ! j) = VStr s
                     \<and> fill (ws' ! i ! j) =
                        (if real_of_int (missing + bad) / real_of_int (good + missing + bad) * 100 > 5 then Red_fill
                         else if real_of_int (missing + bad) / real_of_int (good + missing + bad) * 100 > 1 then Yellow_fill
                         else fill (ws ! i ! j))))"
proof -
  let ?Q = "\<lambda>ws' i. length (ws' ! i) = length (ws ! i)
           \<and> (ws ! i \<noteq> [] \<longrightarrow> ws' ! i ! 0 = ws ! i ! 0)
           \<and> (\<forall>j s good missing bad.
                 0 < j \<and> j < length (ws ! i) \<and> cell_value (ws ! i ! j) = VStr s \<and> s \<noteq> []
                 \<and> parse_counts lib s = Inr (good, missing, bad) \<and> 0 < good + missing + bad
                 \<longrightarrow> cell_value (ws' ! i ! j) = VStr s
                     \<and> fill (ws' ! i ! j) =
                        (if real_of_int (missing + bad) / real_of_int (good + missing + bad) * 100 > 5 then Red_fill
                         else if real_of_int (missing + bad) / real_of_int (good + missing + bad) * 100 > 1 then Yellow_fill
                         else fill (ws ! i ! j)))"
  show ?thesis
  proof (cases ws)
    case Nil
    then show ?thesis by (simp add: apply_conditional_formatting_def)
  next
    case (Cons header body)
    from assms Cons obtain body' where body': "format_rows lib body = Inr body'"
      using format_rows_total [of lib body] by (auto simp: sheet_parses_def)
    have ret: "apply_conditional_formatting lib ws = Inr (header # body')"
      using Cons body' by (simp add: apply_conditional_formatting_def)
    have len: "length body' = length body"
      and rows: "\<And>k. k < length body \<Longrightarrow> format_row lib (body ! k) = Inr (body' ! k)"
      using format_rows_Inr [OF body'] by auto
    have cellwise: "?Q (header # body') i" if i: "0 < i" "i < length ws" for i
    proof -
      obtain k where k: "i = Suc k" using i(1) by (cases i) auto
      have kb: "k < length body" using i(2) k Cons by simp
      have wi: "ws ! i = body ! k" "(header # body') ! i = body' ! k"
        using k Cons by simp_all
      note row = format_row_Inr [OF rows [OF kb]]
      have "cell_value (body' ! k ! j) = VStr s
            \<and> fill (body' ! k ! j) =
                 (if real_of_int (missing + bad) / real_of_int (good + missing + bad) * 100 > 5 then Red_fill
                  else if real_of_int (missing + bad) / real_of_int (good + missing + bad) * 100 > 1 then Yellow_fill
                  else fill (body ! k ! j))"
        if j: "0 < j" "j < length (body ! k)"
          and v: "cell_value (body ! k ! j) = VStr s" "s \<noteq> []"
          and pc: "parse_counts lib s = Inr (good, missing, bad)"
          and tot: "0 < good + missing + bad"
        for j s good missing bad
      proof -
        have "format_cell lib (body ! k ! j) = Inr (body' ! k ! j)"
          using row j by blast
        then have "body' ! k ! j = shade good missing bad (body ! k ! j)"
          using format_cell_counts [OF v pc] by simp
        then show ?thesis using v tot by (simp add: shade_def Let_def)
      qed
      then show ?thesis unfolding wi using row by blast
    qed
    have a: "length (header # body') = length ws" using Cons len by simp
    have b: "ws \<noteq> [] \<longrightarrow> (header # body') ! 0 = ws ! 0" using Cons by simp
    have c: "\<forall>i. 0 < i \<and> i < length ws \<longrightarrow> ?Q (header # body') i"
      using cellwise by blast
    show ?thesis using ret a b c by blast
  qed
qed

theorem apply_conditional_formatting_shades_witness:
  "sheet_parses lib_0 sheet_1
   \<and> (\<exists>ws'. apply_conditional_formatting lib_0 sheet_1 = Inr ws'
         \<and> map fill (ws' ! 1) = [No_fill, Red_fill, Yellow_fill, No_fill]
         \<and> map fill (ws' ! 2) = [No_fill, Red_fill, Yellow_fill, No_fill])"
proof -
  have sp: "sheet_parses lib_0 sheet_1"
    by (simp add: sheet_parses_def sheet_1_def text_cell_def cell_parses_def parse_counts_def
          count_field_def split_def lib_0_def decimal_def)
  have p1: "parse_counts lib_0 ''Good: 94, Missing: 0, Bad: 6'' = Inr (94, 0, 6)"
    and p2: "parse_counts lib_0 ''Good: 98, Missing: 1, Bad: 1'' = Inr (98, 1, 1)"
    and p3: "parse_counts lib_0 ''Good: 100, Missing: 0, Bad: 0'' = Inr (100, 0, 0)"
    and p4: "parse_counts lib_0 ''Good: 9, Missing: 1, Bad: 0'' = Inr (9, 1, 0)"
    and p5: "parse_counts lib_0 ''Good: 49, Missing: 0, Bad: 1'' = Inr (49, 0, 1)"
    and p6: "parse_counts lib_0 ''Good: 199, Missing: 1, Bad: 0'' = Inr (199, 1, 0)"
    by (simp_all add: parse_counts_def count_field_def split_def lib_0_def decimal_def)
  have row1: "sheet_1 ! 1 = [text_cell ''2024-01'', text_cell ''Good: 94, Missing: 0, Bad: 6'',
       text_cell ''Good: 98, Missing: 1, Bad: 1'', text_cell ''Good: 100, Missing: 0, Bad: 0'']"
    and row2: "sheet_1 ! 2 = [text_cell ''2024-02'', text_cell ''Good: 9, Missing: 1, Bad: 0'',
       text_cell ''Good: 49, Missing: 0, Bad: 1'', text_cell ''Good: 199, Missing: 1, Bad: 0'']"
    by (simp_all add: sheet_1_def)
  from apply_conditional_formatting_shades [OF sp]
  obtain ws' where ret: "apply_conditional_formatting lib_0 sheet_1 = Inr ws'"
    and body: "\<forall>i. 0 < i \<and> i < length sheet_1 \<longrightarrow>
           length (ws' ! i) = length (sheet_1 ! i)
           \<and> (sheet_1 ! i \<noteq> [] \<longrightarrow> ws' ! i ! 0 = sheet_1 ! i ! 0)
           \<and> (\<forall>j s good missing bad.
                 0 < j \<and> j < length (sheet_1 ! i) \<and> cell_value (sheet_1 ! i ! j) = VStr s \<and> s \<noteq> []
                 \<and> parse_counts lib_0 s = Inr (good, missing, bad) \<and> 0 < good + missing + bad
                 \<longrightarrow> cell_value (ws' ! i ! j) = VStr s
                     \<and> fill (ws' ! i ! j) =
                        (if real_of_int (missing + bad) / real_of_int (good + missing + bad) * 100 > 5
                         then Red_fill
                         else if real_of_int (missing + bad) / real_of_int (good + missing + bad) * 100 > 1
                         then Yellow_fill
                         else fill (sheet_1 ! i ! j)))"
    by blast
  have one: "0 < (1::nat) \<and> 1 < length sheet_1" and two: "0 < (2::nat) \<and> 2 < length sheet_1"
    by (simp_all add: sheet_1_def)
  define r where "r = ws' ! 1"
  note q = body [rule_format, OF one, folded r_def]
  note b1 = q [THEN conjunct1]
  note b2 = q [THEN conjunct2, THEN conjunct1]
  note b3 = q [THEN conjunct2, THEN conjunct2]
  have len: "length r = 4" using b1 unfolding row1 by simp
  have f0: "fill (r ! 0) = No_fill" using b2 unfolding row1 by (simp add: text_cell_def)
  have f1: "fill (r ! 1) = Red_fill"
    using b3 [rule_format, of 1 "''Good: 94, Missing: 0, Bad: 6''" 94 0 6] p1
    unfolding row1 by (simp add: text_cell_def)
  have f2: "fill (r ! 2) = Yellow_fill"
    using b3 [rule_format, of 2 "''Good: 98, Missing: 1, Bad: 1''" 98 1 1] p2
    unfolding row1 by (simp add: text_cell_def)
  have f3: "fill (r ! 3) = No_fill"
    using b3 [rule_format, of 3 "''Good: 100, Missing: 0, Bad: 0''" 100 0 0] p3
    unfolding row1 by (simp add: text_cell_def)
  have "map fill r = [No_fill, Red_fill, Yellow_fill, No_fill]"
    using len f0 f1 f2 f3
    by (auto simp: list_eq_iff_nth_eq less_Suc_eq numeral_eq_Suc)
  then have m1: "map fill (ws' ! 1) = [No_fill, Red_fill, Yellow_fill, No_fill]"
    by (simp add: r_def)
  define t where "t = ws' ! 2"
  note q' = body [rule_format, OF two, folded t_def]
  note c1 = q' [THEN conjunct1]
  note c2 = q' [THEN conjunct2, THEN conjunct1]
  note c3 = q' [THEN conjunct2, THEN conjunct2]
  have len': "length t = 4" using c1 unfolding row2 by simp
  have g0: "fill (t ! 0) = No_fill" using c2 unfolding row2 by (simp add: text_cell_def)
  have g1: "fill (t ! 1) = Red_fill"
    using c3 [rule_format, of 1 "''Good: 9, Missing: 1, Bad: 0''" 9 1 0] p4
    unfolding row2 by (simp add: text_cell_def)
  have g2: "fill (t ! 2) = Yellow_fill"
    using c3 [rule_format, of 2 "''Good: 49, Missing: 0, Bad: 1''" 49 0 1] p5
    unfolding row2 by (simp add: text_cell_def)
  have g3: "fill (t ! 3) = No_fill"
    using c3 [rule_format, of 3 "''Good: 199, Missing: 1, Bad: 0''" 199 1 0] p6
    unfolding row2 by (simp add: text_cell_def)
  have "map fill t = [No_fill, Red_fill, Yellow_fill, No_fill]"
    using len' g0 g1 g2 g3
    by (auto simp: list_eq_iff_nth_eq less_Suc_eq numeral_eq_Suc)
  then have m2: "map fill (ws' ! 2) = [No_fill, Red_fill, Yellow_fill, No_fill]"
    by (simp add: t_def)
  from ret m1 m2 have "apply_conditional_formatting lib_0 sheet_1 = Inr ws'
      \<and> map fill (ws' ! 1) = [No_fill, Red_fill, Yellow_fill, No_fill]
      \<and> map fill (ws' ! 2) = [No_fill, Red_fill, Yellow_fill, No_fill]"
    by simp
  then have "\<exists>ws'. apply_conditional_formatting lib_0 sheet_1 = Inr ws'
      \<and> map fill (ws' ! 1) = [No_fill, Red_fill, Yellow_fill, No_fill]
      \<and> map fill (ws' ! 2) = [No_fill, Red_fill, Yellow_fill, No_fill]"
    by (rule exI)
  with sp show ?thesis by (rule conjI)
qed

section \<open>Properties of the row-order normalization\<close>

lemma fix_order_parsed:
  assumes "conv (column_at df 0) = Inr (t0 # t1 # ts)"
    and "columns df \<noteq> []" and "2 \<le> length (rows df)"
  shows "fix_order conv u w (Some df)
         = Inr (Some (if ts_gt t0 t1 then reversed df else df), u, w)"
  using assms by (auto simp: fix_order_def df_empty_def)

lemma fix_order_short:
  "length (rows df) < 2 \<or> columns df = [] \<Longrightarrow> fix_order conv u w (Some df) = Inr (Some df, u, w)"
  by (auto simp: fix_order_def df_empty_def)

lemma fix_order_ValueError:
  assumes "conv (column_at df 0) = Inl (ValueError msg)"
    and "columns df \<noteq> []" and "2 \<le> length (rows df)"
  shows "\<exists>u' w'. fix_order conv u w (Some df) = Inr (Some df, u', w')
           \<and> length (errors u') = Suc (length (errors u))
           \<and> length (log_lines w') = Suc (length (log_lines w))"
  using assms by (auto simp: fix_order_def df_empty_def Log_write_def Let_def)

text \<open>
  C3 at a table with the timestamps 3, 1, 2. The first two descend, so the table is
  reversed to 2, 1, 3, whose timestamps do not ascend; normalizing that table again
  reverses it back to 3, 1, 2, so applying twice is not applying once.
\<close>

theorem fix_order_leaves_unsorted:
  "fix_order epoch_to_datetime (new_Unit json_5) world_0
       (Some (time_table [VInt 3, VInt 1, VInt 2]))
     = Inr (Some (time_table [VInt 2, VInt 1, VInt 3]), new_Unit json_5, world_0)
   \<and> fix_order epoch_to_datetime (new_Unit json_5) world_0
       (Some (time_table [VInt 2, VInt 1, VInt 3]))
     = Inr (Some (time_table [VInt 3, VInt 1, VInt 2]), new_Unit json_5, world_0)
   \<and> time_table [VInt 3, VInt 1, VInt 2] \<noteq> time_table [VInt 2, VInt 1, VInt 3]"
  by (simp add: fix_order_def df_empty_def time_table_def column_at_def cell_at_def
      reversed_def)

section \<open>Properties of the download\<close>

lemma split_acc_nonempty: "split_acc sep cur s \<noteq> []"
  by (induction sep cur s rule: split_acc.induct) auto

lemma split_acc_no_sep:
  "c \<notin> set ys \<Longrightarrow> split_acc [c] cur ys = [rev cur @ ys]"
  by (induction ys arbitrary: cur) auto

lemma last_split_acc:
  "c \<notin> set ys \<Longrightarrow> last (split_acc [c] cur (xs @ c # ys)) = ys"
proof (induction xs arbitrary: cur)
  case Nil
  then show ?case by (simp add: split_acc_no_sep)
next
  case (Cons x xs)
  then show ?case by (simp add: split_acc_nonempty)
qed

lemma last_segment_url:
  "CHR ''/'' \<notin> set date \<Longrightarrow> last_segment (base @ ''/'' @ date) = date"
  using last_split_acc [of "CHR ''/''" date "[]" base]
  by (simp add: last_segment_def split_def)

lemma last_segment_daily_url:
  "CHR ''/'' \<notin> set date \<Longrightarrow> last_segment (daily_url u date) = date"
  using last_segment_url [of date "''http://'' @ ip_address u @ '':'' @ port u
       @ ''/index.php/pages/export/exportDaily/'' @ serial u"]
  by (simp add: daily_url_def)

lemma last_segment_monthly_url:
  "CHR ''/'' \<notin> set date \<Longrightarrow> last_segment (monthly_url u date) = date"
  using last_segment_url [of date "''http://'' @ ip_address u @ '':'' @ port u
       @ ''/index.php/pages/export/exportMonthly/'' @ serial u"]
  by (simp add: monthly_url_def)

lemma download_try_other:
  "read_csv ev url = Inl (OtherException msg) \<Longrightarrow>
   download_try ev u w url = Inl (OtherException msg)"
  by (simp add: download_try_def)

lemma download_other_not_listed:
  assumes "read_csv ev url = Inl (OtherException msg)"
    and "map_of google_paths (unit_no u) = None"
  shows "download ev u w url
         = (u, Log_write (''Downloading Unit '' @ str_int (unit_no u) @ '': '' @ ip_address u
                           @ '':'' @ port u) w)"
  using assms by (simp add: download_def download_try_other Let_def)

lemma download_other_listed:
  assumes "read_csv ev url = Inl (OtherException msg)"
    and "map_of google_paths (unit_no u) = Some folder"
  shows "download ev u w url
         = drive_fallback ev u
             (Log_write (''Downloading Unit '' @ str_int (unit_no u) @ '': '' @ ip_address u
                           @ '':'' @ port u) w) (last_segment url) folder"
  using assms by (simp add: download_def download_try_other Let_def)

lemma fix_order_world:
  "fix_order conv u w dfo = Inr (d, u', w') \<Longrightarrow>
   drive_queries w' = drive_queries w \<and> failed_downloads w' = failed_downloads w
   \<and> csv_files w' = csv_files w \<and> sent_emails w' = sent_emails w
   \<and> (\<exists>ls. log_lines w' = log_lines w @ ls)"
  by (auto simp: fix_order_def Log_write_def Let_def
           split: option.splits if_splits sum.splits list.splits exn.splits)

text \<open>The fallback: its first log line, and the one query it sends when the client is built.\<close>

lemma drive_fallback_attempt:
  "\<exists>ls. log_lines (snd (drive_fallback ev u w date folder))
         = log_lines w @ [''Attempting to download '' @ serial u @ ''_'' @ date @ ''.csv''
                            @ '' from Google Drive for Unit '' @ str_int (unit_no u)] @ ls"
  by (auto simp: drive_fallback_def Let_def Log_write_def backup_failed_def
           split: option.splits sum.splits list.splits prod.splits
           dest!: fix_order_world)

lemma drive_fallback_queries:
  "drive_queries (snd (drive_fallback ev u w date folder))
   = drive_queries w @ (if drive_service ev = None
                        then [drive_query folder (serial u @ ''_'' @ date @ ''.csv'')] else [])"
  by (auto simp: drive_fallback_def Let_def Log_write_def backup_failed_def
           split: option.splits sum.splits list.splits prod.splits
           dest!: fix_order_world)

lemma drive_fallback_data:
  assumes "data (fst (drive_fallback ev u w date folder)) \<noteq> data u"
  shows "\<exists>file_id rest backup.
           drive_service ev = None
           \<and> drive_list ev (drive_query folder (serial u @ ''_'' @ date @ ''.csv''))
               = Inr (file_id # rest)
           \<and> drive_read ev file_id = Inr backup \<and> \<not> df_empty backup"
  using assms
  by (auto simp: drive_fallback_def Let_def
           split: option.splits sum.splits list.splits prod.splits if_splits)

lemma google_paths_spec: "google_paths = spec_folder_table"
  by (simp add: google_paths_def spec_folder_table_def)

lemma google_paths_size: "length google_paths = 19 \<and> distinct (map fst google_paths)"
  by (simp add: google_paths_def)

text \<open>
  When the fetch raises a ValueError (pandas' EmptyDataError is one) or the table read is
  empty, the first handler unsets the dataset and records the failure on the unit, in the
  log and in the failed-downloads record.
\<close>

lemma download_empty_recorded:
  assumes "read_csv ev url = Inl (ValueError msg)
           \<or> (\<exists>response. read_csv ev url = Inr response \<and> df_empty response)"
  shows "\<exists>u' w'. download ev u w url = (u', w') \<and> data u' = None
           \<and> errors u' = errors u @ [''Unit '' @ str_int (unit_no u) @ '': Empty data from '' @ url]
           \<and> failed_downloads w'
               = failed_downloads w @ [(unit_no u, last_segment url, url)]
           \<and> log_lines w'
               = log_lines w
                 @ [''Downloading Unit '' @ str_int (unit_no u) @ '': '' @ ip_address u
                        @ '':'' @ port u,
                    ''Unit '' @ str_int (unit_no u) @ '': Empty data from '' @ url
                        @ newline @ newline]"
  using assms
  by (auto simp: download_def download_try_def Let_def Log_write_def
        Log_record_failed_downloads_def)

text \<open>
  C1 at a network failure. The unit of \<open>json_5\<close> holds the table of an earlier download
  and its export URL raises a URLError. The second handler finds no fallback folder for
  unit 5 and does nothing: the dataset is still the earlier table, the log holds the
  line \<open>Downloading Unit 5\<close> only, and nothing is added to the failed-downloads record
  or to the unit's errors.
\<close>

theorem download_network_failure_unrecorded:
  "download_minute_data offline_env ((new_Unit json_5)\<lparr>data := Some table_1\<rparr>) world_0
     ''2024-01-06''
   = ((new_Unit json_5)\<lparr>data := Some table_1, datatype' := ''Minute''\<rparr>,
      world_0\<lparr>log_lines := [''Downloading Unit 5: 10.0.0.5:8080'']\<rparr>)"
  by (simp add: download_minute_data_def download_def download_try_def daily_url_def
      offline_env_def new_Unit_def json_5_def world_0_def Log_write_def google_paths_def
      str_int_def str_nat.simps digit_char_def Let_def)

text \<open>
  \<open>_download\<close> by what its \<open>try\<close> does. The \<open>try\<close> raises an exception that is not
  a ValueError when the fetch raises one, and also when the fetch gives a table and the
  conversion of its timestamps raises one.
\<close>

lemma download_try_fix_order_raises:
  assumes "read_csv ev url = Inr response" and "columns response \<noteq> []"
    and "2 \<le> length (rows response)"
    and "to_datetime ev (column_at response 0) = Inl (OtherException msg)"
  shows "download_try ev u w url = Inl (OtherException msg)"
  using assms by (auto simp: download_try_def fix_order_def df_empty_def)

lemma download_raised_listed:
  assumes "download_try ev u
             (Log_write (''Downloading Unit '' @ str_int (unit_no u) @ '': '' @ ip_address u
                           @ '':'' @ port u) w) url = Inl (OtherException msg)"
    and "map_of google_paths (unit_no u) = Some folder"
  shows "download ev u w url
         = drive_fallback ev u
             (Log_write (''Downloading Unit '' @ str_int (unit_no u) @ '': '' @ ip_address u
                           @ '':'' @ port u) w) (last_segment url) folder"
  using assms by (simp add: download_def Let_def)

lemma download_raised_not_listed:
  assumes "download_try ev u
             (Log_write (''Downloading Unit '' @ str_int (unit_no u) @ '': '' @ ip_address u
                           @ '':'' @ port u) w) url = Inl (OtherException msg)"
    and "map_of google_paths (unit_no u) = None"
  shows "download ev u w url
         = (u, Log_write (''Downloading Unit '' @ str_int (unit_no u) @ '': '' @ ip_address u
                           @ '':'' @ port u) w)"
  using assms by (simp add: download_def Let_def)

lemma download_try_queries:
  "download_try ev u w url = Inr (u', w') \<Longrightarrow> drive_queries w' = drive_queries w"
  by (auto simp: download_try_def split: sum.splits if_splits dest!: fix_order_world)

lemma download_no_fallback:
  assumes "\<forall>msg. download_try ev u
             (Log_write (''Downloading Unit '' @ str_int (unit_no u) @ '': '' @ ip_address u
                           @ '':'' @ port u) w) url \<noteq> Inl (OtherException msg)"
  shows "drive_queries (snd (download ev u w url)) = drive_queries w"
proof -
  let ?w1 = "Log_write (''Downloading Unit '' @ str_int (unit_no u) @ '': '' @ ip_address u
                           @ '':'' @ port u) w"
  show ?thesis
  proof (cases "download_try ev u ?w1 url")
    case (Inr r)
    obtain u' w' where r: "r = (u', w')" by (cases r)
    from download_try_queries [of ev u ?w1 url u' w'] Inr r
    have "drive_queries w' = drive_queries w" by (simp add: Log_write_def)
    then show ?thesis using Inr r by (simp add: download_def Let_def)
  next
    case (Inl e)
    with assms obtain m where "e = ValueError m" by (cases e) auto
    with Inl show ?thesis
      by (simp add: download_def Let_def Log_write_def Log_record_failed_downloads_def)
  qed
qed

lemma download_not_listed_queries:
  assumes "map_of google_paths (unit_no u) = None"
  shows "drive_queries (snd (download ev u w url)) = drive_queries w"
proof (cases "\<exists>msg. download_try ev u
             (Log_write (''Downloading Unit '' @ str_int (unit_no u) @ '': '' @ ip_address u
                           @ '':'' @ port u) w) url = Inl (OtherException msg)")
  case True
  then obtain msg where "download_try ev u
             (Log_write (''Downloading Unit '' @ str_int (unit_no u) @ '': '' @ ip_address u
                           @ '':'' @ port u) w) url = Inl (OtherException msg)" by blast
  from download_raised_not_listed [OF this assms] show ?thesis
    by (simp add: Log_write_def)
next
  case False
  then show ?thesis by (intro download_no_fallback) simp
qed

text \<open>
  C7, as the claim states it, fails on the size of the allow-list: the table of
  src/unit.py has 19 devices, each once, and so has the table of the spec.
\<close>

theorem fallback_allow_list_not_18:
  "length google_paths \<noteq> 18 \<and> length spec_folder_table \<noteq> 18
   \<and> distinct (map fst google_paths)"
  by (simp add: google_paths_def spec_folder_table_def)

text \<open>
  C7, amended. The fallback table is the spec's table, entry for entry, and has 19 entries.
  For a unit of the table, when the \<open>try\<close> of \<open>_download\<close> raises an exception that is
  not a ValueError, the log gains the line that announces the attempt for the file
  \<open><serial>_<date>.csv\<close>, and, when the storage client can be built, exactly one query is
  sent, which reads \<open>'<folder>' in parents and name = '<serial>_<date>.csv' and trashed =
  false\<close> with the folder mapped to the unit's number. When the \<open>try\<close> raises no such
  exception, no query is sent. For a unit that is not in the table no query is sent on
  any path, and a raised exception leaves the unit as it was. \<open><date>\<close> is what follows
  the last slash of the URL, which is the date passed to \<open>download_minute_data\<close> or
  \<open>download_hour_data\<close>.
\<close>

theorem fallback_uses_mapped_folder:
  "google_paths = spec_folder_table \<and> length google_paths = 19
   \<and> (\<forall>folder msg.
         map_of google_paths (unit_no u) = Some folder
         \<and> download_try ev u
             (Log_write (''Downloading Unit '' @ str_int (unit_no u) @ '': '' @ ip_address u
                           @ '':'' @ port u) w) url = Inl (OtherException msg)
         \<longrightarrow>
          (\<exists>ls. log_lines (snd (download ev u w url))
                 = log_lines w
                   @ [''Downloading Unit '' @ str_int (unit_no u) @ '': '' @ ip_address u
                        @ '':'' @ port u,
                      ''Attempting to download '' @ serial u @ ''_'' @ last_segment url @ ''.csv''
                        @ '' from Google Drive for Unit '' @ str_int (unit_no u)] @ ls)
          \<and> drive_queries (snd (download ev u w url))
              = drive_queries w
                @ (if drive_service ev = None
                   then [[CHR 0x27] @ folder @ [CHR 0x27] @ '' in parents and name = ''
                           @ [CHR 0x27] @ serial u @ ''_'' @ last_segment url @ ''.csv''
                           @ [CHR 0x27] @ '' and trashed = false'']
                   else []))
   \<and> ((\<forall>msg. download_try ev u
             (Log_write (''Downloading Unit '' @ str_int (unit_no u) @ '': '' @ ip_address u
                           @ '':'' @ port u) w) url \<noteq> Inl (OtherException msg))
        \<longrightarrow> drive_queries (snd (download ev u w url)) = drive_queries w)
   \<and> (map_of google_paths (unit_no u) = None \<longrightarrow>
          drive_queries (snd (download ev u w url)) = drive_queries w
          \<and> (\<forall>msg. download_try ev u
                 (Log_write (''Downloading Unit '' @ str_int (unit_no u) @ '': '' @ ip_address u
                               @ '':'' @ port u) w) url = Inl (OtherException msg)
               \<longrightarrow> download ev u w url
                     = (u, Log_write (''Downloading Unit '' @ str_int (unit_no u) @ '': ''
                                        @ ip_address u @ '':'' @ port u) w)))
   \<and> (\<forall>w' msg. read_csv ev url = Inl (OtherException msg)
         \<longrightarrow> download_try ev u w' url = Inl (OtherException msg))
   \<and> (\<forall>w' response msg.
         read_csv ev url = Inr response \<and> columns response \<noteq> [] \<and> 2 \<le> length (rows response)
         \<and> to_datetime ev (column_at response 0) = Inl (OtherException msg)
         \<longrightarrow> download_try ev u w' url = Inl (OtherException msg))
   \<and> (\<forall>date. CHR ''/'' \<notin> set date \<longrightarrow>
          last_segment (daily_url u date) = date \<and> last_segment (monthly_url u date) = date)"
proof -
  let ?w1 = "Log_write (''Downloading Unit '' @ str_int (unit_no u) @ '': '' @ ip_address u
                           @ '':'' @ port u) w"
  have listed: "(\<exists>ls. log_lines (snd (download ev u w url))
                 = log_lines w
                   @ [''Downloading Unit '' @ str_int (unit_no u) @ '': '' @ ip_address u
                        @ '':'' @ port u,
                      ''Attempting to download '' @ serial u @ ''_'' @ last_segment url @ ''.csv''
                        @ '' from Google Drive for Unit '' @ str_int (unit_no u)] @ ls)
          \<and> drive_queries (snd (download ev u w url))
              = drive_queries w
                @ (if drive_service ev = None
                   then [[CHR 0x27] @ folder @ [CHR 0x27] @ '' in parents and name = ''
                           @ [CHR 0x27] @ serial u @ ''_'' @ last_segment url @ ''.csv''
                           @ [CHR 0x27] @ '' and trashed = false'']
                   else [])"
    if f: "map_of google_paths (unit_no u) = Some folder"
      and t: "download_try ev u ?w1 url = Inl (OtherException msg)" for folder msg
  proof -
    have d: "download ev u w url = drive_fallback ev u ?w1 (last_segment url) folder"
      by (rule download_raised_listed [OF t f])
    from drive_fallback_attempt [of ev u ?w1 "last_segment url" folder]
      drive_fallback_queries [of ev u ?w1 "last_segment url" folder]
    show ?thesis unfolding d by (simp add: Log_write_def drive_query_def)
  qed
  have quiet: "drive_queries (snd (download ev u w url)) = drive_queries w"
    if "\<forall>msg. download_try ev u ?w1 url \<noteq> Inl (OtherException msg)"
    using that by (rule download_no_fallback)
  have unlisted: "drive_queries (snd (download ev u w url)) = drive_queries w
          \<and> (\<forall>msg. download_try ev u ?w1 url = Inl (OtherException msg)
               \<longrightarrow> download ev u w url = (u, ?w1))"
    if n: "map_of google_paths (unit_no u) = None"
    using download_not_listed_queries [OF n] download_raised_not_listed [OF _ n] by blast
  have fetch: "\<forall>w' msg. read_csv ev url = Inl (OtherException msg)
         \<longrightarrow> download_try ev u w' url = Inl (OtherException msg)"
    by (simp add: download_try_other)
  have conv: "\<forall>w' response msg.
         read_csv ev url = Inr response \<and> columns response \<noteq> [] \<and> 2 \<le> length (rows response)
         \<and> to_datetime ev (column_at response 0) = Inl (OtherException msg)
         \<longrightarrow> download_try ev u w' url = Inl (OtherException msg)"
    using download_try_fix_order_raises by blast
  have seg: "\<forall>date. CHR ''/'' \<notin> set date \<longrightarrow>
          last_segment (daily_url u date) = date \<and> last_segment (monthly_url u date) = date"
    using last_segment_daily_url last_segment_monthly_url by blast
  have tab: "google_paths = spec_folder_table \<and> length google_paths = 19"
    using google_paths_spec google_paths_size by simp
  from listed have listed': "\<forall>folder msg.
         map_of google_paths (unit_no u) = Some folder
         \<and> download_try ev u ?w1 url = Inl (OtherException msg)
         \<longrightarrow>
          (\<exists>ls. log_lines (snd (download ev u w url))
                 = log_lines w
                   @ [''Downloading Unit '' @ str_int (unit_no u) @ '': '' @ ip_address u
                        @ '':'' @ port u,
                      ''Attempting to download '' @ serial u @ ''_'' @ last_segment url @ ''.csv''
                        @ '' from Google Drive for Unit '' @ str_int (unit_no u)] @ ls)
          \<and> drive_queries (snd (download ev u w url))
              = drive_queries w
                @ (if drive_service ev = None
                   then [[CHR 0x27] @ folder @ [CHR 0x27] @ '' in parents and name = ''
                           @ [CHR 0x27] @ serial u @ ''_'' @ last_segment url @ ''.csv''
                           @ [CHR 0x27] @ '' and trashed = false'']
                   else [])"
    by blast
  from quiet have quiet': "(\<forall>msg. download_try ev u ?w1 url \<noteq> Inl (OtherException msg))
        \<longrightarrow> drive_queries (snd (download ev u w url)) = drive_queries w"
    by blast
  from unlisted have unlisted': "map_of google_paths (unit_no u) = None \<longrightarrow>
          drive_queries (snd (download ev u w url)) = drive_queries w
          \<and> (\<forall>msg. download_try ev u ?w1 url = Inl (OtherException msg)
               \<longrightarrow> download ev u w url = (u, ?w1))"
    by blast
  show ?thesis
    by (intro conjI tab [THEN conjunct1] tab [THEN conjunct2] listed' quiet' unlisted'
          fetch conv seg)
qed

theorem fallback_uses_mapped_folder_witness:
  "map_of google_paths (unit_no (new_Unit json_77)) = Some ''1Z1ETfHlgitFOBx8SWqYiotkezFwL2ahb''
   \<and> drive_queries (snd (download offline_env (new_Unit json_77) world_0
          (daily_url (new_Unit json_77) ''2024-01-05'')))
       = [CHR 0x27 # ''1Z1ETfHlgitFOBx8SWqYiotkezFwL2ahb'' @ CHR 0x27 # '' in parents and name = ''
            @ CHR 0x27 # ''DB77_2024-01-05.csv'' @ CHR 0x27 # '' and trashed = false'']
   \<and> drive_queries (snd (download overflow_env (new_Unit json_77) world_0
          (monthly_url (new_Unit json_77) ''2024-01'')))
       = [CHR 0x27 # ''1Z1ETfHlgitFOBx8SWqYiotkezFwL2ahb'' @ CHR 0x27 # '' in parents and name = ''
            @ CHR 0x27 # ''DB77_2024-01.csv'' @ CHR 0x27 # '' and trashed = false'']
   \<and> drive_queries (snd (download one_day_env (new_Unit json_77) world_0
          ''http://10.0.0.5:8080/index.php/pages/export/exportDaily/DB5/2024-01-05'')) = []
   \<and> map_of google_paths (unit_no (new_Unit json_5)) = None
   \<and> drive_queries (snd (download offline_env (new_Unit json_5) world_0
          (daily_url (new_Unit json_5) ''2024-01-05''))) = []"
proof -
  let ?u = "new_Unit json_77" and ?v = "new_Unit json_5"
  let ?d = "''Downloading Unit '' @ str_int (unit_no ?u) @ '': '' @ ip_address ?u
              @ '':'' @ port ?u"
  let ?good = "''http://10.0.0.5:8080/index.php/pages/export/exportDaily/DB5/2024-01-05''"
  have m77: "map_of google_paths (unit_no ?u) = Some ''1Z1ETfHlgitFOBx8SWqYiotkezFwL2ahb''"
    by (simp add: google_paths_def new_Unit_def json_77_def)
  have m5: "map_of google_paths (unit_no ?v) = None"
    by (simp add: google_paths_def new_Unit_def json_5_def)
  have sl: "CHR ''/'' \<notin> set ''2024-01-05''" "CHR ''/'' \<notin> set ''2024-01''" by simp_all
  have ser: "serial ?u = ''DB77''" by (simp add: new_Unit_def json_77_def)
  note a = fallback_uses_mapped_folder [of ?u offline_env world_0 "daily_url ?u ''2024-01-05''"]
  note b = fallback_uses_mapped_folder [of ?u overflow_env world_0 "monthly_url ?u ''2024-01''"]
  note c = fallback_uses_mapped_folder [of ?u one_day_env world_0 ?good]
  note e = fallback_uses_mapped_folder [of ?v offline_env world_0 "daily_url ?v ''2024-01-05''"]
  have seg_a: "last_segment (daily_url ?u ''2024-01-05'') = ''2024-01-05''"
    using a sl by blast
  have seg_b: "last_segment (monthly_url ?u ''2024-01'') = ''2024-01''"
    using b sl by blast
  have ta: "download_try offline_env ?u (Log_write ?d world_0) (daily_url ?u ''2024-01-05'')
            = Inl (OtherException ''<urlopen error timed out>'')"
    by (simp add: download_try_def offline_env_def)
  have tb: "download_try overflow_env ?u (Log_write ?d world_0) (monthly_url ?u ''2024-01'')
            = Inl (OtherException ''OverflowError'')"
    by (simp add: download_try_def overflow_env_def offline_env_def table_1_def df_empty_def
        fix_order_def)
  have tc: "\<forall>msg. download_try one_day_env ?u (Log_write ?d world_0) ?good
                  \<noteq> Inl (OtherException msg)"
    by (simp add: download_try_def one_day_env_def offline_env_def table_1_def df_empty_def
        fix_order_def column_at_def cell_at_def)
  have qa: "drive_queries (snd (download offline_env ?u world_0 (daily_url ?u ''2024-01-05'')))
        = drive_queries world_0
          @ (if drive_service offline_env = None
             then [[CHR 0x27] @ ''1Z1ETfHlgitFOBx8SWqYiotkezFwL2ahb'' @ [CHR 0x27]
                     @ '' in parents and name = '' @ [CHR 0x27] @ serial ?u @ ''_''
                     @ last_segment (daily_url ?u ''2024-01-05'') @ ''.csv''
                     @ [CHR 0x27] @ '' and trashed = false'']
             else [])"
    using a m77 ta by blast
  have qb: "drive_queries (snd (download overflow_env ?u world_0 (monthly_url ?u ''2024-01'')))
        = drive_queries world_0
          @ (if drive_service overflow_env = None
             then [[CHR 0x27] @ ''1Z1ETfHlgitFOBx8SWqYiotkezFwL2ahb'' @ [CHR 0x27]
                     @ '' in parents and name = '' @ [CHR 0x27] @ serial ?u @ ''_''
                     @ last_segment (monthly_url ?u ''2024-01'') @ ''.csv''
                     @ [CHR 0x27] @ '' and trashed = false'']
             else [])"
    using b m77 tb by blast
  have qc: "drive_queries (snd (download one_day_env ?u world_0 ?good)) = drive_queries world_0"
    using c tc by blast
  have qe: "drive_queries (snd (download offline_env ?v world_0 (daily_url ?v ''2024-01-05'')))
        = drive_queries world_0"
    using e m5 by blast
  have qa': "drive_queries (snd (download offline_env ?u world_0 (daily_url ?u ''2024-01-05'')))
       = [CHR 0x27 # ''1Z1ETfHlgitFOBx8SWqYiotkezFwL2ahb'' @ CHR 0x27 # '' in parents and name = ''
            @ CHR 0x27 # ''DB77_2024-01-05.csv'' @ CHR 0x27 # '' and trashed = false'']"
    unfolding qa seg_a ser by (simp add: world_0_def offline_env_def)
  have qb': "drive_queries (snd (download overflow_env ?u world_0 (monthly_url ?u ''2024-01'')))
       = [CHR 0x27 # ''1Z1ETfHlgitFOBx8SWqYiotkezFwL2ahb'' @ CHR 0x27 # '' in parents and name = ''
            @ CHR 0x27 # ''DB77_2024-01.csv'' @ CHR 0x27 # '' and trashed = false'']"
    unfolding qb seg_b ser by (simp add: world_0_def overflow_env_def offline_env_def)
  have w0: "drive_queries world_0 = []" by (simp add: world_0_def)
  show ?thesis
    using m77 qa' qb' qc qe m5 unfolding w0 by (intro conjI)
qed

lemma download_and_save_stale:
  assumes "read_csv ev (daily_url u date) = Inl (OtherException msg)"
    and "map_of google_paths (unit_no u) = None"
    and "data u = Some df" and "\<not> df_empty df"
  shows "download_and_save ev ''Minute'' output_dir date u w
         = (u\<lparr>datatype' := ''Minute''\<rparr>,
            (Log_write (''Downloading Unit '' @ str_int (unit_no u) @ '': '' @ ip_address u
                           @ '':'' @ port u) w)
              \<lparr>csv_files := csv_files w @ [(unit_csv_path output_dir (unit_no u) date, df)]\<rparr>)"
proof -
  let ?u = "u\<lparr>datatype' := ''Minute''\<rparr>"
  have "download ev ?u w (daily_url u date)
        = (?u, Log_write (''Downloading Unit '' @ str_int (unit_no ?u) @ '': '' @ ip_address ?u
                           @ '':'' @ port ?u) w)"
    by (rule download_other_not_listed [OF assms(1)]) (simp add: assms(2))
  then show ?thesis
    using assms(3,4) by (simp add: download_and_save_def download_minute_data_def Log_write_def)
qed

text \<open>
  C10. When the fetch of a unit's daily export raises an exception that is not a
  ValueError, the unit's dataset after \<open>download_minute_data\<close> is the one it held
  before, for every unit outside the fallback table; it differs only when the unit is in
  the table and the cloud storage returned a non-empty file. So one pass of the
  bulk-download loop for a unit outside the table that still holds a non-empty dataset
  writes that dataset under the file name of the new date.
\<close>

theorem failed_download_keeps_data:
  assumes "read_csv ev (daily_url u date) = Inl (OtherException msg)"
  shows "(map_of google_paths (unit_no u) = None \<longrightarrow>
            data (fst (download_minute_data ev u w date)) = data u)
     \<and> (data (fst (download_minute_data ev u w date)) \<noteq> data u \<longrightarrow>
          (\<exists>folder file_id rest backup.
              map_of google_paths (unit_no u) = Some folder \<and> drive_service ev = None
              \<and> drive_list ev (drive_query folder
                    (serial u @ ''_'' @ last_segment (daily_url u date) @ ''.csv''))
                  = Inr (file_id # rest)
              \<and> drive_read ev file_id = Inr backup \<and> \<not> df_empty backup))
     \<and> (\<forall>df. map_of google_paths (unit_no u) = None \<and> data u = Some df \<and> \<not> df_empty df \<longrightarrow>
          csv_files (snd (download_and_save ev ''Minute'' output_dir date u w))
            = csv_files w @ [(unit_csv_path output_dir (unit_no u) date, df)])"
proof -
  let ?u = "u\<lparr>datatype' := ''Minute''\<rparr>"
  let ?w1 = "Log_write (''Downloading Unit '' @ str_int (unit_no ?u) @ '': '' @ ip_address ?u
                           @ '':'' @ port ?u) w"
  have a: "data (fst (download_minute_data ev u w date)) = data u"
    if n: "map_of google_paths (unit_no u) = None"
  proof -
    have "map_of google_paths (unit_no ?u) = None" using n by simp
    from download_other_not_listed [OF assms this, of w] show ?thesis
      by (simp add: download_minute_data_def)
  qed
  have b: "\<exists>folder file_id rest backup.
              map_of google_paths (unit_no u) = Some folder \<and> drive_service ev = None
              \<and> drive_list ev (drive_query folder
                    (serial u @ ''_'' @ last_segment (daily_url u date) @ ''.csv''))
                  = Inr (file_id # rest)
              \<and> drive_read ev file_id = Inr backup \<and> \<not> df_empty backup"
    if ch: "data (fst (download_minute_data ev u w date)) \<noteq> data u"
  proof (cases "map_of google_paths (unit_no u)")
    case None
    with a ch show ?thesis by simp
  next
    case (Some folder)
    then have "map_of google_paths (unit_no ?u) = Some folder" by simp
    from download_other_listed [OF assms this, of w]
    have d: "download_minute_data ev u w date
             = drive_fallback ev ?u ?w1 (last_segment (daily_url u date)) folder"
      by (simp add: download_minute_data_def)
    have "data (fst (drive_fallback ev ?u ?w1 (last_segment (daily_url u date)) folder)) \<noteq> data ?u"
      using ch d by simp
    from drive_fallback_data [OF this] Some show ?thesis by simp
  qed
  have c: "csv_files (snd (download_and_save ev ''Minute'' output_dir date u w))
            = csv_files w @ [(unit_csv_path output_dir (unit_no u) date, df)]"
    if "map_of google_paths (unit_no u) = None \<and> data u = Some df \<and> \<not> df_empty df" for df
    using download_and_save_stale [OF assms, of df output_dir w] that by simp
  show ?thesis using a b c by blast
qed

theorem failed_download_keeps_data_witness:
  "read_csv one_day_env
      (daily_url ((new_Unit json_5)\<lparr>data := Some table_1, datatype' := ''Minute''\<rparr>) ''2024-01-06'')
     = Inl (OtherException ''<urlopen error timed out>'')
   \<and> map_of google_paths 5 = None
   \<and> csv_files (snd (download_dates one_day_env ''Minute'' ''/tmp/out''
          [''2024-01-05'', ''2024-01-06''] [new_Unit json_5] world_0))
       = [(''/tmp/out/UNIT 5/Unit_5_2024-01-05.csv'', table_1),
          (''/tmp/out/UNIT 5/Unit_5_2024-01-06.csv'', table_1)]"
proof -
  let ?u1 = "(new_Unit json_5)\<lparr>data := Some table_1, datatype' := ''Minute''\<rparr>"
  let ?w1 = "world_0\<lparr>log_lines := [''Downloading Unit 5: 10.0.0.5:8080''],
               csv_files := [(''/tmp/out/UNIT 5/Unit_5_2024-01-05.csv'', table_1)]\<rparr>"
  have n5: "str_int 5 = ''5''"
    by (simp add: str_int_def str_nat.simps digit_char_def)
  have first: "download_and_save one_day_env ''Minute'' ''/tmp/out'' ''2024-01-05''
                 (new_Unit json_5) world_0 = (?u1, ?w1)"
    by (simp add: download_and_save_def download_minute_data_def download_def download_try_def
        daily_url_def one_day_env_def offline_env_def new_Unit_def json_5_def world_0_def
        Log_write_def n5 table_1_def df_empty_def fix_order_def column_at_def cell_at_def
        unit_csv_path_def Let_def)
  have r: "read_csv one_day_env (daily_url ?u1 ''2024-01-06'')
           = Inl (OtherException ''<urlopen error timed out>'')"
    by (simp add: one_day_env_def offline_env_def daily_url_def new_Unit_def json_5_def)
  have m: "map_of google_paths 5 = None"
    by (simp add: google_paths_def)
  have hyp: "map_of google_paths (unit_no ?u1) = None \<and> data ?u1 = Some table_1
             \<and> \<not> df_empty table_1"
    using m by (simp add: new_Unit_def json_5_def table_1_def df_empty_def)
  have "csv_files (snd (download_and_save one_day_env ''Minute'' ''/tmp/out'' ''2024-01-06'' ?u1 ?w1))
        = csv_files ?w1 @ [(unit_csv_path ''/tmp/out'' (unit_no ?u1) ''2024-01-06'', table_1)]"
    using failed_download_keeps_data [OF r, of ?w1 "''/tmp/out''"] hyp by blast
  then have second: "csv_files (snd (download_and_save one_day_env ''Minute'' ''/tmp/out''
                        ''2024-01-06'' ?u1 ?w1))
        = [(''/tmp/out/UNIT 5/Unit_5_2024-01-05.csv'', table_1),
           (''/tmp/out/UNIT 5/Unit_5_2024-01-06.csv'', table_1)]"
    by (simp add: unit_csv_path_def new_Unit_def json_5_def n5)
  have "csv_files (snd (download_dates one_day_env ''Minute'' ''/tmp/out''
          [''2024-01-05'', ''2024-01-06''] [new_Unit json_5] world_0))
        = csv_files (snd (download_and_save one_day_env ''Minute'' ''/tmp/out''
                        ''2024-01-06'' ?u1 ?w1))"
    by (simp add: first split: prod.splits)
  with second r m show ?thesis by simp
qed

section \<open>Properties of the quality report\<close>

lemma example_process:
  "process_data lib_0 example_units example_tree 5 ''2024-01'' ''Minute''
   = Inr (Some [(''Power'', [2, 0, 0])])"
  by (simp add: process_data_def example_units_def example_tree_def init_results_def lib_0_def
        json_5_def monitored_def endswith_def check_data_quality_def table_1_def
        count_values_def count_value_def range_count_def in_range_def column_at_def cell_at_def)

lemma digits_process:
  "process_data lib_0 example_units digits_tree 5 ''2024010'' ''Minute''
   = Inr (Some [(''Power'', [2, 0, 0])])"
  by (simp add: process_data_def example_units_def digits_tree_def init_results_def lib_0_def
        json_5_def monitored_def endswith_def check_data_quality_def table_1_def
        count_values_def count_value_def range_count_def in_range_def column_at_def cell_at_def)

lemma example_format:
  "apply_conditional_formatting lib_0 example_sheet = Inr example_sheet"
  by (simp add: apply_conditional_formatting_def example_sheet_def format_row_def
        format_cell_def text_cell_def parse_counts_def count_field_def split_def lib_0_def
        decimal_def shade_def)

lemma digits_format:
  "apply_conditional_formatting lib_0 digits_sheet = Inr digits_sheet"
  by (simp add: apply_conditional_formatting_def digits_sheet_def format_row_def
        format_cell_def text_cell_def parse_counts_def count_field_def split_def lib_0_def
        decimal_def shade_def)

lemma example_columns:
  "map_of example_units 5 = Some json_5"
  "filter (monitored (j_channels json_5)) (map fst (registry lib_0)) = [''Power'']"
  "format_quality_result (Some [2, 0, 0]) = ''Good: 2, Missing: 0, Bad: 0''"
  "lower ''Minute'' = ''minute''"
  "map fst example_units = [5]"
  by (simp_all add: example_units_def json_5_def lib_0_def monitored_def
        format_quality_result_def str_nat.simps digit_char_def lower_def lower_char_def)

text \<open>
  With the date written \<open>2024-01-05\<close> the period label is \<open>2024-01\<close>, which reads back
  as it was written: the first run saves the report and the second run saves nothing.
\<close>

lemma example_first_run:
  "update_unit_report lib_0 pandas_excel example_units example_tree ''Minute'' 5 None
   = Inr (Some example_sheet)"
proof -
  have t: "example_tree 5 = Some [(''Unit_5_Minute_2024-01-05.csv'', Inr table_1)]"
    by (simp add: example_tree_def)
  have m: "months_of ''Minute'' [(''Unit_5_Minute_2024-01-05.csv'', Inr table_1)] = [''2024-01'']"
    by (simp add: months_of_def month_label_def endswith_def split_def remove_all_def
          List.map_filter_def)
  have x: "to_excel pandas_excel \<lparr> report_columns = [''Power''],
                    report_rows = [(VStr ''2024-01'', [''Good: 2, Missing: 0, Bad: 0''])] \<rparr>
           = example_sheet"
    by (simp add: pandas_excel_def example_sheet_def text_cell_def)
  show ?thesis
    by (simp add: update_unit_report_def t m example_columns example_process report_index_def
          results_truthy_def sort_index_def x example_format)
qed

lemma example_second_run:
  "update_unit_report lib_0 pandas_excel example_units example_tree ''Minute'' 5
     (Some example_sheet) = Inr None"
proof -
  have t: "example_tree 5 = Some [(''Unit_5_Minute_2024-01-05.csv'', Inr table_1)]"
    by (simp add: example_tree_def)
  have m: "months_of ''Minute'' [(''Unit_5_Minute_2024-01-05.csv'', Inr table_1)] = [''2024-01'']"
    by (simp add: months_of_def month_label_def endswith_def split_def remove_all_def
          List.map_filter_def)
  have r: "read_excel pandas_excel example_sheet
           = Inr \<lparr> report_columns = [''Power''],
                   report_rows = [(VStr ''2024-01'', [''Good: 2, Missing: 0, Bad: 0''])] \<rparr>"
    by (simp add: pandas_excel_def example_sheet_def text_cell_def cell_text_def
          infer_labels_def digits_label_def decimal_def)
  show ?thesis
    by (simp add: update_unit_report_def t m r report_index_def)
qed

lemma update_quality_report_dashed_label:
  "update_quality_report lib_0 pandas_excel example_units example_tree ''Minute'' Map.empty
     = Inr ([(5, ''minute'') \<mapsto> example_sheet], [5])
   \<and> update_quality_report lib_0 pandas_excel example_units example_tree ''Minute''
         [(5, ''minute'') \<mapsto> example_sheet]
     = Inr ([(5, ''minute'') \<mapsto> example_sheet], [])"
  by (simp add: update_quality_report_def example_columns example_first_run example_second_run)

lemma digits_first_run:
  "update_unit_report lib_0 pandas_excel example_units digits_tree ''Minute'' 5 None
   = Inr (Some digits_sheet)"
proof -
  have t: "digits_tree 5 = Some [(''Unit_5_Minute_20240105.csv'', Inr table_1)]"
    by (simp add: digits_tree_def)
  have m: "months_of ''Minute'' [(''Unit_5_Minute_20240105.csv'', Inr table_1)] = [''2024010'']"
    by (simp add: months_of_def month_label_def endswith_def split_def remove_all_def
          List.map_filter_def)
  have x: "to_excel pandas_excel \<lparr> report_columns = [''Power''],
                    report_rows = [(VStr ''2024010'', [''Good: 2, Missing: 0, Bad: 0''])] \<rparr>
           = digits_sheet"
    by (simp add: pandas_excel_def digits_sheet_def text_cell_def)
  show ?thesis
    by (simp add: update_unit_report_def t m example_columns digits_process report_index_def
          results_truthy_def sort_index_def x digits_format)
qed

lemma digits_second_run:
  "update_unit_report lib_0 pandas_excel example_units digits_tree ''Minute'' 5
     (Some digits_sheet) = Inl (OtherException ''TypeError'')"
proof -
  have t: "digits_tree 5 = Some [(''Unit_5_Minute_20240105.csv'', Inr table_1)]"
    by (simp add: digits_tree_def)
  have m: "months_of ''Minute'' [(''Unit_5_Minute_20240105.csv'', Inr table_1)] = [''2024010'']"
    by (simp add: months_of_def month_label_def endswith_def split_def remove_all_def
          List.map_filter_def)
  have r: "read_excel pandas_excel digits_sheet
           = Inr \<lparr> report_columns = [''Power''],
                   report_rows = [(VInt 2024010, [''Good: 2, Missing: 0, Bad: 0''])] \<rparr>"
    by (simp add: pandas_excel_def digits_sheet_def text_cell_def cell_text_def
          infer_labels_def digits_label_def decimal_def)
  show ?thesis
    by (simp add: update_unit_report_def t m r digits_process report_index_def
          results_truthy_def example_columns sort_index_def)
qed

text \<open>
  C5 at a data tree whose file is named \<open>Unit_5_Minute_20240105.csv\<close>. The first run
  saves a report with the one period label \<open>2024010\<close>. The tree is unchanged; the second
  run reads the label back as the int 2024010, does not find the string \<open>2024010\<close> in
  the index, adds a row for the month again and raises TypeError when it sorts the index.
\<close>

theorem update_quality_report_digits_label:
  "update_quality_report lib_0 pandas_excel example_units digits_tree ''Minute'' Map.empty
     = Inr ([(5, ''minute'') \<mapsto> digits_sheet], [5])
   \<and> update_quality_report lib_0 pandas_excel example_units digits_tree ''Minute''
         [(5, ''minute'') \<mapsto> digits_sheet]
     = Inl (OtherException ''TypeError'')"
  by (simp add: update_quality_report_def example_columns digits_first_run digits_second_run)

end
